theory Spec2Isabelle
  imports Main "HOL-Library.Sublist"
begin

section \<open>The travel planner of \<^verbatim>\<open>agent.py\<close>\<close>

text \<open>
  The program is one Streamlit script. Each interaction of the user re-runs \<^verbatim>\<open>main()\<close>
  from the top with the current values of the widgets; one such run is what is modelled.

  \<^item> A Python \<^verbatim>\<open>str\<close> is a \<open>string\<close> holding the UTF-8 bytes of the text: the
    symbols outside ASCII in the labels are written byte by byte. Concatenation,
    containment of a substring and the replacement of the ASCII space agree on
    code points and on UTF-8 bytes, and nothing below measures a length.
  \<^item> Everything the script shows and every call it makes to the agent framework is
    appended to a trace of events, in the order of execution.
  \<^item> The third-party libraries are oracles: a \<open>world\<close> says, for the \<open>n\<close>-th
    interaction with the outside and its arguments, whether the call raises and what
    it returns. A theorem for every world covers every behaviour of the libraries.
  \<^item> An exception is the text \<^verbatim>\<open>str(e)\<close> of an instance of \<^verbatim>\<open>Exception\<close>: the only
    thing the script reads of it. A result of type \<open>exn + 'a\<close> is \<open>Inl e\<close> when the
    code raises. The calls into Streamlit itself (\<^verbatim>\<open>st.markdown\<close>, \<^verbatim>\<open>st.error\<close>, the
    widgets) are taken not to raise.
  \<^item> The page configuration and the style sheet at module level (lines 10-78) come
    before \<^verbatim>\<open>main\<close> and are left out.
\<close>

subsection \<open>Dates\<close>

text \<open>
  \<^verbatim>\<open>st.date_input\<close> returns a \<^verbatim>\<open>datetime.date\<close>. The script compares two dates and
  formats them in f-strings (\<^verbatim>\<open>str(d)\<close> is \<^verbatim>\<open>d.isoformat()\<close>, that is
  \<^verbatim>\<open>"%04d-%02d-%02d"\<close>). A date object is always truthy.
\<close>

record date =
  year :: nat
  month :: nat
  day :: nat

definition date_lt :: "date \<Rightarrow> date \<Rightarrow> bool" where
  "date_lt a b =
     (year a < year b \<or>
      (year a = year b \<and> (month a < month b \<or> (month a = month b \<and> day a < day b))))"

definition date_ge :: "date \<Rightarrow> date \<Rightarrow> bool" where
  "date_ge a b = (\<not> date_lt a b)"

fun decimal :: "nat \<Rightarrow> string" where
  "decimal n = (if n < 10 then [char_of (48 + n)] else decimal (n div 10) @ [char_of (48 + n mod 10)])"

definition zfill :: "nat \<Rightarrow> string \<Rightarrow> string" where
  "zfill width s = replicate (width - length s) (CHR ''0'') @ s"

definition isoformat :: "date \<Rightarrow> string" where
  "isoformat d =
     zfill 4 (decimal (year d)) @ ''-'' @ zfill 2 (decimal (month d)) @ ''-'' @ zfill 2 (decimal (day d))"

subsection \<open>Events, the outside world and the state\<close>

type_synonym exn = string

type_synonym tool = string

record chat_model =
  model :: string
  google_api_key :: "string option"

text \<open>The executor \<^verbatim>\<open>initialize_agent\<close> builds: its tools, its model and the two limits
  the script passes on re-initialisation (agent type and verbosity are the same constants
  at both call sites).\<close>

record executor =
  ex_tools :: "tool list"
  ex_llm :: chat_model
  max_iterations :: "nat option"
  early_stopping_method :: "string option"

text \<open>What \<^verbatim>\<open>llm.invoke\<close> returns: an object with a \<^verbatim>\<open>content\<close> attribute (a message,
  whose content is taken to be text), or one without, of which the script takes
  \<^verbatim>\<open>str(...)\<close>.\<close>

datatype chat_response = With_content string | Without_content string

datatype event =
    St_markdown string
  | St_error string
  | St_warning string
  | St_success string
  | St_info string
  | St_sidebar
  | St_expander string
  | St_spinner string
  | St_columns nat
  | St_text_input string string
  | St_date_input string
  | St_button string
  | St_progress nat
  | St_empty
  | St_container
  | Status_text string
  | Status_empty
  | Progress nat
  | Progress_empty
  | St_download_button string string string string
  | Time_sleep nat
  | Initialize_agent "tool list"
  | Agent_run string executor string
  | Llm_invoke string chat_model string
  | Returned string string
  | Raised string exn

record world =
  secrets :: "exn + (string \<rightharpoonup> string)"
  ComposioToolSet :: "nat \<Rightarrow> exn option"
  get_tools :: "nat \<Rightarrow> exn + tool list"
  add_tool :: "nat \<Rightarrow> exn option"
  ChatGoogleGenerativeAI :: "nat \<Rightarrow> chat_model \<Rightarrow> exn option"
  initialize_agent :: "nat \<Rightarrow> tool list \<Rightarrow> chat_model \<Rightarrow> exn option"
  agent_run :: "nat \<Rightarrow> executor \<Rightarrow> string \<Rightarrow> exn + string"
  llm_invoke :: "nat \<Rightarrow> chat_model \<Rightarrow> string \<Rightarrow> exn + chat_response"
  uuid4 :: "nat \<Rightarrow> string"
  now :: "nat \<Rightarrow> string"

record state =
  trace :: "event list"
  tick :: nat
  environ :: "string \<rightharpoonup> string"

definition emit :: "event \<Rightarrow> state \<Rightarrow> state" where
  "emit e s = s\<lparr>trace := trace s @ [e]\<rparr>"

definition emits :: "event list \<Rightarrow> state \<Rightarrow> state" where
  "emits es s = s\<lparr>trace := trace s @ es\<rparr>"

definition advance :: "state \<Rightarrow> state" where
  "advance s = s\<lparr>tick := Suc (tick s)\<rparr>"

subsection \<open>\<^verbatim>\<open>setup_environment\<close> (lines 80-113)\<close>

definition setup_instructions :: string where
  \<open>setup_instructions =
     [CHR 0x0A] @ ''            <div class="setup-info">'' @
     [CHR 0x0A] @ ''            <strong>Setup Instructions:</strong><br>'' @
     [CHR 0x0A] @ ''            1. Go to your Streamlit app settings<br>'' @
     [CHR 0x0A] @ ''            2. Add the following to your secrets.toml:<br>'' @
     [CHR 0x0A] @ ''            <code>'' @
     [CHR 0x0A] @ ''            GOOGLE_API_KEY = "your_google_api_key_here"<br>'' @
     [CHR 0x0A] @ ''            COMPOSIO_API_KEY = "your_composio_api_key_here"<br>'' @
     [CHR 0x0A] @ ''            TAVILY_API_KEY = "your_tavily_api_key_here"'' @
     [CHR 0x0A] @ ''            </code>'' @
     [CHR 0x0A] @ ''            </div>'' @
     [CHR 0x0A] @ ''            ''\<close>

definition copy_secret :: "(string \<rightharpoonup> string) \<Rightarrow> string \<Rightarrow> state \<Rightarrow> state" where
  "copy_secret sec key s =
     (case sec key of
        None \<Rightarrow> s
      | Some v \<Rightarrow> s\<lparr>environ := (environ s)(key \<mapsto> v)\<rparr>)"

definition setup_environment :: "world \<Rightarrow> state \<Rightarrow> bool \<times> state" where
  "setup_environment w s =
     (case secrets w of
        Inl e \<Rightarrow>
          (False, emit (St_error ([CHR 0xE2, CHR 0x9D, CHR 0x8C] @ '' Error setting up environment: '' @ e)) s)
      | Inr sec \<Rightarrow>
          (case sec ''GOOGLE_API_KEY'' of
             None \<Rightarrow>
               (False,
                emits
                  [St_error ([CHR 0xE2, CHR 0x9D, CHR 0x8C] @
                     '' Google API Key not found in secrets. Please add it to your Streamlit secrets.''),
                   St_markdown setup_instructions] s)
           | Some g \<Rightarrow>
               (True,
                copy_secret sec ''TAVILY_API_KEY''
                  (copy_secret sec ''COMPOSIO_API_KEY''
                    (s\<lparr>environ := (environ s)(''GOOGLE_API_KEY'' \<mapsto> g)\<rparr>)))))"

subsection \<open>\<^verbatim>\<open>initialize_composio_tools\<close> (lines 115-148)\<close>

text \<open>Both handlers catch every exception and return the empty list, so the function
  never raises. A list is falsy exactly when it is empty.\<close>

definition composio_error :: "exn \<Rightarrow> state \<Rightarrow> tool list \<times> state" where
  "composio_error e s =
     ([], emit (St_error ([CHR 0xE2, CHR 0x9D, CHR 0x8C] @ '' Error initializing Composio tools: '' @ e)) s)"

definition tavily_error :: "exn \<Rightarrow> state \<Rightarrow> tool list \<times> state" where
  "tavily_error e s =
     ([], emits
        [St_error ([CHR 0xE2, CHR 0x9D, CHR 0x8C] @ '' Failed to setup Tavily integration: '' @ e),
         St_info ([CHR 0xF0, CHR 0x9F, CHR 0x92, CHR 0xA1] @
           '' Make sure your Tavily API key is correctly set in secrets.'')] s)"

definition initialize_composio_tools :: "world \<Rightarrow> state \<Rightarrow> tool list \<times> state" where
  "initialize_composio_tools w s =
     (case ComposioToolSet w (tick s) of
        Some e \<Rightarrow> composio_error e (advance s)
      | None \<Rightarrow>
          (let s1 = advance s in
           case get_tools w (tick s1) of
             Inl e \<Rightarrow> composio_error e (advance s1)
           | Inr tool_list \<Rightarrow>
               (let s2 = advance s1 in
                if tool_list = [] then
                  (let s3 = emit (St_warning ([CHR 0xE2, CHR 0x9A, CHR 0xA0, CHR 0xEF, CHR 0xB8, CHR 0x8F] @
                              '' Tavily tools not found. Attempting to connect Tavily...'')) s2
                   in case add_tool w (tick s3) of
                        Some e \<Rightarrow> tavily_error e (advance s3)
                      | None \<Rightarrow>
                          (let s4 = advance s3 in
                           case get_tools w (tick s4) of
                             Inl e \<Rightarrow> tavily_error e (advance s4)
                           | Inr tool_list2 \<Rightarrow>
                               if tool_list2 \<noteq> [] then
                                 (tool_list2,
                                  emit (St_success ([CHR 0xE2, CHR 0x9C, CHR 0x85] @
                                    '' Tavily integration successful!'')) (advance s4))
                               else
                                 ([], emit (St_error ([CHR 0xE2, CHR 0x9D, CHR 0x8C] @
                                    '' Failed to connect Tavily. Please check your API keys.'')) (advance s4))))
                else (tool_list, s2))))"

subsection \<open>\<^verbatim>\<open>TravelAgent\<close> (lines 150-208)\<close>

record TravelAgent =
  name :: string
  role :: string
  goal :: string
  backstory :: string
  llm :: chat_model
  tools :: "tool list"
  use_agent :: bool
  agent :: "executor option"

text \<open>The constructor. \<^verbatim>\<open>if use_agent and tools\<close> tests the flag and that the list is not
  empty; \<^verbatim>\<open>initialize_agent\<close> may raise, and then no object is built. An executor
  object is truthy, so \<^verbatim>\<open>self.agent\<close> is falsy exactly when it is \<^verbatim>\<open>None\<close>.\<close>

definition TravelAgent_init ::
  "world \<Rightarrow> string \<Rightarrow> string \<Rightarrow> string \<Rightarrow> string \<Rightarrow> chat_model \<Rightarrow> tool list \<Rightarrow> bool \<Rightarrow> state
     \<Rightarrow> (exn + TravelAgent) \<times> state" where
  "TravelAgent_init w nm rl gl bs lm tls ua s =
     (if ua \<and> tls \<noteq> [] then
        (let s1 = emit (Initialize_agent tls) s in
         case initialize_agent w (tick s1) tls lm of
           Some e \<Rightarrow> (Inl e, advance s1)
         | None \<Rightarrow>
             (Inr \<lparr>name = nm, role = rl, goal = gl, backstory = bs, llm = lm, tools = tls, use_agent = ua,
                   agent = Some \<lparr>ex_tools = tls, ex_llm = lm, max_iterations = None,
                                 early_stopping_method = None\<rparr>\<rparr>,
              advance s1))
      else
        (Inr \<lparr>name = nm, role = rl, goal = gl, backstory = bs, llm = lm, tools = tls, use_agent = ua,
              agent = None\<rparr>, s))"

definition full_prompt :: "TravelAgent \<Rightarrow> string \<Rightarrow> string \<Rightarrow> string \<Rightarrow> string" where
  "full_prompt self session_id timestamp prompt =
     ''Session ID: '' @ session_id @ '' | Time: '' @ timestamp @ [CHR 0x0A] @
     ''Role: '' @ role self @ [CHR 0x0A] @
     ''Goal: '' @ goal self @ [CHR 0x0A] @
     ''Background: '' @ backstory self @ [CHR 0x0A, CHR 0x0A] @
     ''IMPORTANT INSTRUCTION: This is a NEW query. Use the available search tools to find CURRENT, FRESH information. '' @
     ''DO NOT use any cached or previous responses. Each query should trigger NEW searches. '' @
     ''IMPORTANT INSTRUCTION: Give output in plain text and not markdown. Do not use special characters too much. '' @
     ''NEVER ask the user for more information. If any information is missing, use search tools or make reasonable assumptions. '' @
     ''ALWAYS provide a complete answer based on your FRESH search results and current knowledge.'' @
     [CHR 0x0A, CHR 0x0A] @
     ''CURRENT USER QUERY (PROCESS THIS FRESH): '' @ prompt"

text \<open>\<^verbatim>\<open>run\<close> returns the response or raises, and may have replaced \<^verbatim>\<open>self.agent\<close>: the
  object after the call is part of the result. The session id is the first eight
  characters of the UUID's text.\<close>

definition run :: "world \<Rightarrow> TravelAgent \<Rightarrow> string \<Rightarrow> state \<Rightarrow> (exn + string) \<times> TravelAgent \<times> state" where
  "run w self prompt s =
     (let session_id = take 8 (uuid4 w (tick s));
          s1 = advance s;
          timestamp = now w (tick s1);
          s2 = advance s1;
          p = full_prompt self session_id timestamp prompt
      in if use_agent self \<and> agent self \<noteq> None then
           (let s3 = emit (Initialize_agent (tools self)) s2 in
            case initialize_agent w (tick s3) (tools self) (llm self) of
              Some e \<Rightarrow> (Inl e, self, advance s3)
            | None \<Rightarrow>
                (let ex = \<lparr>ex_tools = tools self, ex_llm = llm self, max_iterations = Some 3,
                           early_stopping_method = Some ''generate''\<rparr>;
                     self' = self\<lparr>agent := Some ex\<rparr>;
                     s4 = emit (Agent_run (name self) ex p) (advance s3)
                 in case agent_run w (tick s4) ex p of
                      Inl e \<Rightarrow> (Inl e, self', emit (Raised (name self) e) (advance s4))
                    | Inr response \<Rightarrow> (Inr response, self', emit (Returned (name self) response) (advance s4))))
         else
           (let s3 = emit (Llm_invoke (name self) (llm self) p) s2 in
            case llm_invoke w (tick s3) (llm self) p of
              Inl e \<Rightarrow> (Inl e, self, emit (Raised (name self) e) (advance s3))
            | Inr chat_response \<Rightarrow>
                (let response = (case chat_response of With_content c \<Rightarrow> c | Without_content t \<Rightarrow> t)
                 in (Inr response, self, emit (Returned (name self) response) (advance s3)))))"

subsection \<open>\<^verbatim>\<open>initialize_agents\<close> (lines 210-300)\<close>

record agents =
  researcher :: TravelAgent
  planner :: TravelAgent
  budget_expert :: TravelAgent
  local_expert :: TravelAgent
  summarizer :: TravelAgent

definition agents_error :: "exn \<Rightarrow> state \<Rightarrow> agents option \<times> state" where
  "agents_error e s = (None, emit (St_error (''Error initializing agents: '' @ e)) s)"

text \<open>Statements in sequence inside a \<^verbatim>\<open>try\<close> block: when the first raises, the
  rest is skipped and the exception is the result.\<close>

definition bind ::
  "(state \<Rightarrow> (exn + 'a) \<times> state) \<Rightarrow> ('a \<Rightarrow> state \<Rightarrow> (exn + 'b) \<times> state) \<Rightarrow> state \<Rightarrow> (exn + 'b) \<times> state" where
  "bind m k s = (case m s of (Inl e, s1) \<Rightarrow> (Inl e, s1) | (Inr x, s1) \<Rightarrow> k x s1)"

text \<open>The five constructor calls and the dictionary (lines 226-296). The four search
  agents are built with the list \<^verbatim>\<open>initialize_composio_tools\<close> returned and the default
  \<^verbatim>\<open>use_agent=True\<close>; the summarizer with \<^verbatim>\<open>tools=[]\<close> and \<^verbatim>\<open>use_agent=False\<close>.\<close>

definition build_agents :: "world \<Rightarrow> chat_model \<Rightarrow> tool list \<Rightarrow> state \<Rightarrow> (exn + agents) \<times> state" where
  "build_agents w lm tool_list =
     bind (TravelAgent_init w ''Researcher'' ''Travel Research Specialist''
            ''Provide current info: flights, hotels, attractions, visa, weather using web search''
            (''You are an expert travel researcher with access to real-time web search. '' @
             ''You use search tools to find current flight prices, hotel availability, '' @
             ''visa requirements, weather conditions, and travel advisories.'')
            lm tool_list True) (\<lambda>research_agent.
     bind (TravelAgent_init w ''Planner'' ''Itinerary Planning Expert''
            ''Create detailed, optimized travel itineraries using current information''
            (''You are a master itinerary planner who uses web search to find current '' @
             ''opening hours, seasonal events, local festivals, and up-to-date attraction information '' @
             ''to create the most relevant travel plans.'')
            lm tool_list True) (\<lambda>itinerary_agent.
     bind (TravelAgent_init w ''Budget Expert'' ''Budget Optimization Specialist''
            ''Find current deals, prices, and budget-friendly options using web search''
            (''You are a financial planner specializing in travel budgeting. You use search tools '' @
             ''to find current deals, discount codes, price comparisons, and budget-friendly alternatives.'')
            lm tool_list True) (\<lambda>budget_agent.
     bind (TravelAgent_init w ''Local Expert'' ''Local Culture and Experience Guide''
            ''Provide current local insights, events, and recommendations using web search''
            (''You are a cultural expert who uses web search to find current local events, '' @
             ''seasonal activities, recent reviews, and trending local experiences.'')
            lm tool_list True) (\<lambda>local_expert_agent.
     bind (TravelAgent_init w ''Summarizer'' ''Travel Plan Summarization Specialist''
            ''Summarize detailed travel information into a concise and clear travel plan''
            (''You are an expert summarizer that combines multiple travel planning outputs '' @
             ''into a user-friendly summary.'')
            lm [] False) (\<lambda>summarizer_agent.
     Pair (Inr \<lparr>researcher = research_agent, planner = itinerary_agent,
                 budget_expert = budget_agent, local_expert = local_expert_agent,
                 summarizer = summarizer_agent\<rparr>))))))"

text \<open>The whole function: the model object, the tools, the warning when there are none,
  the agents. An exception anywhere in the body is reported and the function returns
  \<^verbatim>\<open>None\<close>. (\<^verbatim>\<open>st.cache_resource\<close> keeps the result for later runs of the script; a run
  that finds the cache filled starts from the cached dictionary.)\<close>

definition initialize_agents :: "world \<Rightarrow> state \<Rightarrow> agents option \<times> state" where
  "initialize_agents w s =
     (let lm = \<lparr>model = ''gemini-2.0-flash'', google_api_key = environ s ''GOOGLE_API_KEY''\<rparr> in
      case ChatGoogleGenerativeAI w (tick s) lm of
        Some e \<Rightarrow> agents_error e (advance s)
      | None \<Rightarrow>
          (let (tool_list, s1) = initialize_composio_tools w (advance s);
               s2 = (if tool_list = [] then
                       emit (St_warning ([CHR 0xE2, CHR 0x9A, CHR 0xA0, CHR 0xEF, CHR 0xB8, CHR 0x8F] @
                         '' No search tools available. Some features may be limited.'')) s1
                     else s1)
           in case build_agents w lm tool_list s2 of
                (Inl e, s3) \<Rightarrow> agents_error e s3
              | (Inr ags, s3) \<Rightarrow> (Some ags, s3)))"

subsection \<open>The form and the prompts of \<^verbatim>\<open>main\<close>\<close>

text \<open>The values of the six input widgets and of the button in one run of the script.\<close>

record form =
  origin :: string
  start_date :: date
  budget :: string
  destination :: string
  end_date :: date
  interests :: string
  button :: bool

text \<open>\<^verbatim>\<open>s.replace(old, new)\<close> for one-character \<^verbatim>\<open>old\<close> and \<^verbatim>\<open>new\<close>.\<close>

definition str_replace :: "char \<Rightarrow> char \<Rightarrow> string \<Rightarrow> string" where
  "str_replace old new s = map (\<lambda>c. if c = old then new else c) s"

definition research_query :: "form \<Rightarrow> string" where
  "research_query f =
     ''IMPORTANT: This is a FRESH query for a trip from '' @ origin f @ '' to '' @ destination f @ ''. '' @
     ''You MUST perform NEW searches now. Do not use any previous information. '' @
     ''Search step 1: Search for 'flights '' @ origin f @ '' to '' @ destination f @ '' '' @
       isoformat (start_date f) @ '' '' @ isoformat (end_date f) @ '' 2025 current prices' '' @
     ''Search step 2: Search for 'visa requirements '' @ destination f @ '' from '' @ origin f @ '' 2025 current' '' @
     ''Search step 3: Search for 'weather '' @ destination f @ '' '' @ isoformat (start_date f) @ '' 2025 forecast' '' @
     ''Provide the FRESH search results with specific prices, airlines, and current information.''"

definition itinerary_query :: "form \<Rightarrow> string" where
  "itinerary_query f =
     ''FRESH QUERY: Create itinerary for '' @ destination f @ '' from '' @ isoformat (start_date f) @
       '' to '' @ isoformat (end_date f) @ ''. '' @
     ''You MUST search for NEW information now: '' @
     ''Search for: 'things to do '' @ destination f @ '' '' @ interests f @ '' '' @
       isoformat (start_date f) @ '' 2025 current events' '' @
     ''Search for: 'attractions '' @ destination f @ '' opening hours 2025 current' '' @
     ''Create a day-by-day itinerary based on your FRESH search results.''"

definition budget_query :: "form \<Rightarrow> string" where
  "budget_query f =
     ''FRESH BUDGET SEARCH for '' @ destination f @ '': '' @
     ''Consider the number of days from '' @ isoformat (start_date f) @ '' to '' @ isoformat (end_date f) @ ''.  '' @
     ''Search for: 'hotel prices '' @ destination f @ '' '' @ isoformat (start_date f) @ '' 2025 current deals' '' @
     ''Search for: 'restaurant costs '' @ destination f @ '' 2025 budget dining' '' @
     ''Search for: 'activity prices '' @ destination f @ '' '' @ interests f @ '' 2025 discounts' '' @
     ''Budget is '' @ budget f @ ''. Provide FRESH pricing information from your searches.''"

definition local_query :: "form \<Rightarrow> string" where
  "local_query f =
     ''FRESH LOCAL SEARCH for '' @ destination f @ '': '' @
     ''Search for: 'local events '' @ destination f @ '' '' @ isoformat (start_date f) @ '' to '' @
       isoformat (end_date f) @ '' 2025' '' @
     ''Search for: 'cultural activities '' @ destination f @ '' '' @ interests f @ '' 2025 current' '' @
     ''Search for: 'local tips '' @ destination f @ '' 2025 etiquette customs' '' @
     ''Provide FRESH local information from your searches.''"

definition summary_prompt :: "string \<Rightarrow> string \<Rightarrow> string \<Rightarrow> string \<Rightarrow> string" where
  "summary_prompt flights_info itinerary budget_plan local_tips =
     ''Create a concise travel plan summary with these sections: '' @
     ''Current Flight & Travel Info, Daily Itinerary, Budget & Deals, Local Events & Tips.'' @ [CHR 0x0A, CHR 0x0A] @
     ''Flight & Travel Info:'' @ [CHR 0x0A] @ flights_info @ ''...'' @ [CHR 0x0A, CHR 0x0A] @
     ''Itinerary:'' @ [CHR 0x0A] @ itinerary @ ''...'' @ [CHR 0x0A, CHR 0x0A] @
     ''Budget & Deals:'' @ [CHR 0x0A] @ budget_plan @ ''...'' @ [CHR 0x0A, CHR 0x0A] @
     ''Local Events & Tips:'' @ [CHR 0x0A] @ local_tips @ ''...'' @ [CHR 0x0A, CHR 0x0A] @
     ''Make it actionable and current for the traveler.''"

definition agent_response :: "string \<Rightarrow> string" where
  \<open>agent_response text = ''<div class="agent-response">'' @ text @ ''</div>''\<close>

definition success_box :: "string \<Rightarrow> string" where
  \<open>success_box text = ''<div class="success-box">'' @ text @ ''</div>''\<close>

definition error_box :: "exn \<Rightarrow> string" where
  \<open>error_box e =
     ''<div class="error-box">'' @ [CHR 0xE2, CHR 0x9D, CHR 0x8C] @ '' Error generating travel plan: '' @ e @ ''</div>''\<close>

definition file_name :: "form \<Rightarrow> string" where
  "file_name f =
     ''travel_plan_'' @ str_replace (CHR '' '') (CHR ''_'') (destination f) @ ''_'' @
     isoformat (start_date f) @ ''.txt''"

subsection \<open>The body of the \<^verbatim>\<open>try\<close> statement of \<^verbatim>\<open>main\<close> (lines 381-496)\<close>

text \<open>
  The body is a straight line of five steps; an exception raised in a step leaves the
  body at once. Each definition below is one step of the source followed by the steps
  after it, with the results obtained so far as arguments; \<open>pipeline\<close> is the whole
  body. The object a \<^verbatim>\<open>run\<close> leaves behind stays in the cached dictionary and is not read
  again in the same run of the script.
\<close>

definition step5_summary ::
  "world \<Rightarrow> form \<Rightarrow> agents \<Rightarrow> string \<Rightarrow> string \<Rightarrow> string \<Rightarrow> string \<Rightarrow> state \<Rightarrow> (exn + unit) \<times> state" where
  \<open>step5_summary w f ags flights_info itinerary budget_plan local_tips s =
     (let s1 = emits
            [Status_text ([CHR 0xF0, CHR 0x9F, CHR 0x93, CHR 0x9D] @ '' Creating your personalized travel plan...''),
             Progress 100,
             St_spinner ''Generating your final travel plan...''] s
      in case run w (summarizer ags) (summary_prompt flights_info itinerary budget_plan local_tips) s1 of
           (Inl e, _, s2) \<Rightarrow> (Inl e, s2)
         | (Inr summarized_plan, _, s2) \<Rightarrow>
             (Inr (),
              emits
                [St_markdown (''<div class="section-header">'' @ [CHR 0xF0, CHR 0x9F, CHR 0x8E, CHR 0xAF] @
                   '' Your Personalized Travel Plan</div>''),
                 St_markdown (success_box summarized_plan),
                 St_download_button ([CHR 0xF0, CHR 0x9F, CHR 0x93, CHR 0xA5] @ '' Download Travel Plan'')
                   summarized_plan (file_name f) ''text/plain'',
                 Status_text ([CHR 0xE2, CHR 0x9C, CHR 0x85] @ '' Travel plan generated successfully!''),
                 Time_sleep 2,
                 Status_empty,
                 Progress_empty] s2))\<close>

definition step4_local ::
  "world \<Rightarrow> form \<Rightarrow> agents \<Rightarrow> string \<Rightarrow> string \<Rightarrow> string \<Rightarrow> state \<Rightarrow> (exn + unit) \<times> state" where
  "step4_local w f ags flights_info itinerary budget_plan s =
     (let s1 = emits
            [Status_text ([CHR 0xF0, CHR 0x9F, CHR 0x8C, CHR 0x9F] @ '' Gathering local insights and tips...''),
             Progress 80,
             St_expander ([CHR 0xF0, CHR 0x9F, CHR 0x8C, CHR 0x9F] @ '' Local Insights''),
             St_empty,
             St_spinner ''Discovering local events and cultural tips...''] s
      in case run w (local_expert ags) (local_query f) s1 of
           (Inl e, _, s2) \<Rightarrow> (Inl e, s2)
         | (Inr local_tips, _, s2) \<Rightarrow>
             step5_summary w f ags flights_info itinerary budget_plan local_tips
               (emit (St_markdown (agent_response local_tips)) s2))"

definition step3_budget ::
  "world \<Rightarrow> form \<Rightarrow> agents \<Rightarrow> string \<Rightarrow> string \<Rightarrow> state \<Rightarrow> (exn + unit) \<times> state" where
  "step3_budget w f ags flights_info itinerary s =
     (let s1 = emits
            [Status_text ([CHR 0xF0, CHR 0x9F, CHR 0x92, CHR 0xB0] @ '' Analyzing budget and finding deals...''),
             Progress 60,
             St_expander ([CHR 0xF0, CHR 0x9F, CHR 0x92, CHR 0xB0] @ '' Budget Analysis''),
             St_empty,
             St_spinner ''Finding the best deals and pricing...''] s
      in case run w (budget_expert ags) (budget_query f) s1 of
           (Inl e, _, s2) \<Rightarrow> (Inl e, s2)
         | (Inr budget_plan, _, s2) \<Rightarrow>
             step4_local w f ags flights_info itinerary budget_plan
               (emit (St_markdown (agent_response budget_plan)) s2))"

definition step2_itinerary ::
  "world \<Rightarrow> form \<Rightarrow> agents \<Rightarrow> string \<Rightarrow> state \<Rightarrow> (exn + unit) \<times> state" where
  "step2_itinerary w f ags flights_info s =
     (let s1 = emits
            [Status_text ([CHR 0xF0, CHR 0x9F, CHR 0x93, CHR 0x8B] @ '' Creating detailed itinerary...''),
             Progress 40,
             St_expander ([CHR 0xF0, CHR 0x9F, CHR 0x93, CHR 0x8B] @ '' Detailed Itinerary''),
             St_empty,
             St_spinner ''Planning your daily itinerary...''] s
      in case run w (planner ags) (itinerary_query f) s1 of
           (Inl e, _, s2) \<Rightarrow> (Inl e, s2)
         | (Inr itinerary, _, s2) \<Rightarrow>
             step3_budget w f ags flights_info itinerary
               (emit (St_markdown (agent_response itinerary)) s2))"

definition step1_research :: "world \<Rightarrow> form \<Rightarrow> agents \<Rightarrow> state \<Rightarrow> (exn + unit) \<times> state" where
  "step1_research w f ags s =
     (let s1 = emits
            [Status_text ([CHR 0xF0, CHR 0x9F, CHR 0x94, CHR 0x8D] @ '' Researching flights, visas, and weather...''),
             Progress 20,
             St_expander ([CHR 0xF0, CHR 0x9F, CHR 0x94, CHR 0x8D] @ '' Research Results''),
             St_empty,
             St_spinner ''Searching for flights, visas, and weather info...''] s
      in case run w (researcher ags) (research_query f) s1 of
           (Inl e, _, s2) \<Rightarrow> (Inl e, s2)
         | (Inr flights_info, _, s2) \<Rightarrow>
             step2_itinerary w f ags flights_info
               (emit (St_markdown (agent_response flights_info)) s2))"

definition pipeline :: "world \<Rightarrow> form \<Rightarrow> agents \<Rightarrow> state \<Rightarrow> (exn + unit) \<times> state" where
  "pipeline w f ags s = step1_research w f ags s"

subsection \<open>\<^verbatim>\<open>main\<close> (lines 302-504)\<close>

text \<open>The statements under \<^verbatim>\<open>if st.button(...)\<close> once the fields are checked: the
  progress widgets, the \<^verbatim>\<open>try\<close> body and its handler (lines 374-500).\<close>

definition generate :: "world \<Rightarrow> form \<Rightarrow> agents \<Rightarrow> state \<Rightarrow> state" where
  "generate w f ags s =
     (case pipeline w f ags (emits [St_progress 0, St_empty, St_container] s) of
        (Inr _, s1) \<Rightarrow> s1
      | (Inl e, s1) \<Rightarrow>
          emits
            [St_markdown (error_box e),
             St_info ([CHR 0xF0, CHR 0x9F, CHR 0x92, CHR 0xA1] @
               '' Please check that all API keys are correctly configured in your Streamlit secrets.'')] s1)"

definition about_text :: string where
  "about_text =
     [CHR 0x0A] @ ''            This AI Travel Planner uses:'' @
     [CHR 0x0A] @ ''            - **Google Gemini** for AI reasoning'' @
     [CHR 0x0A] @ ''            - **Composio** for tool orchestration'' @
     [CHR 0x0A] @ ''            - **Tavily** for real-time web search'' @
     [CHR 0x0A] @ ''            '' @
     [CHR 0x0A] @ ''            **Features:**'' @
     [CHR 0x0A] @ ''            - Real-time flight & hotel searches'' @
     [CHR 0x0A] @ ''            - Current weather & visa info'' @
     [CHR 0x0A] @ ''            - Local events & cultural insights'' @
     [CHR 0x0A] @ ''            - Budget optimization'' @
     [CHR 0x0A] @ ''            - Personalized itineraries'' @
     [CHR 0x0A] @ ''            ''"

definition quick_start_text :: string where
  \<open>quick_start_text =
     [CHR 0x0A] @ ''            1. Fill in your trip details below'' @
     [CHR 0x0A] @ ''            2. Click "Generate Travel Plan"'' @
     [CHR 0x0A] @ ''            3. Get your personalized itinerary'' @
     [CHR 0x0A] @ ''            4. Download your travel plan'' @
     [CHR 0x0A] @ ''            '' @
     [CHR 0x0A] @ ''            **No manual setup required!**'' @
     [CHR 0x0A] @ ''            ''\<close>

definition footer :: "state \<Rightarrow> state" where
  "footer s =
     emits
       [St_markdown ''---'',
        St_markdown ([CHR 0xF0, CHR 0x9F, CHR 0xA4, CHR 0x96] @
          '' Powered by AI agents with real-time search capabilities | Auto-configured for instant use'')] s"

text \<open>The widgets of the form, in the order the script creates them (lines 349-361). The
  \<^verbatim>\<open>min_value\<close> of a date input limits what the widget lets the user pick; the model
  takes any two dates.\<close>

definition trip_details :: "event list" where
  \<open>trip_details =
     [St_markdown (''<div class="section-header">'' @ [CHR 0xE2, CHR 0x9C, CHR 0x88, CHR 0xEF, CHR 0xB8, CHR 0x8F] @
        '' Trip Details</div>''),
      St_columns 2,
      St_text_input ([CHR 0xF0, CHR 0x9F, CHR 0x9B, CHR 0xAB] @ '' Departure City'') ''e.g., New York, NY'',
      St_date_input ([CHR 0xF0, CHR 0x9F, CHR 0x93, CHR 0x85] @ '' Start Date''),
      St_text_input ([CHR 0xF0, CHR 0x9F, CHR 0x92, CHR 0xB0] @ '' Total Budget'') ''e.g., $2000 USD'',
      St_text_input ([CHR 0xF0, CHR 0x9F, CHR 0x9B, CHR 0xAC] @ '' Destination City'') ''e.g., Paris, France'',
      St_date_input ([CHR 0xF0, CHR 0x9F, CHR 0x93, CHR 0x85] @ '' End Date''),
      St_text_input ([CHR 0xF0, CHR 0x9F, CHR 0x8E, CHR 0xAF] @ '' Interests'') ''museums, food, hiking, beaches'']\<close>

text \<open>\<^verbatim>\<open>all([origin, destination, start_date, end_date, budget, interests])\<close>: a string is
  truthy when it is not empty, a date always.\<close>

definition all_filled :: "form \<Rightarrow> bool" where
  "all_filled f =
     (origin f \<noteq> [] \<and> destination f \<noteq> [] \<and> True \<and> True \<and> budget f \<noteq> [] \<and> interests f \<noteq> [])"

text \<open>The part of \<^verbatim>\<open>main\<close> that follows the initialisation of the agents (lines 348-504):
  the form, the check of the dates, the button and what a click does, the footer. Both
  checks end the run with \<^verbatim>\<open>return\<close>, before the footer.\<close>

definition trip_form :: "world \<Rightarrow> form \<Rightarrow> agents \<Rightarrow> state \<Rightarrow> state" where
  "trip_form w f ags s =
     (let s1 = emits trip_details s in
      if date_ge (start_date f) (end_date f) then
        emit (St_error ([CHR 0xE2, CHR 0x9D, CHR 0x8C] @ '' End date must be after start date!'')) s1
      else
        (let s2 = emit (St_button ([CHR 0xF0, CHR 0x9F, CHR 0x9A, CHR 0x80] @ '' Generate Travel Plan'')) s1
         in if button f then
              (if \<not> all_filled f then
                 emit (St_error ([CHR 0xE2, CHR 0x9D, CHR 0x8C] @ '' Please fill in all fields!'')) s2
               else footer (generate w f ags s2))
            else footer s2))"

definition main :: "world \<Rightarrow> form \<Rightarrow> state \<Rightarrow> state" where
  \<open>main w f s =
     (let s1 = emits
            [St_markdown (''<h1 class="main-header">'' @ [CHR 0xF0, CHR 0x9F, CHR 0x8C, CHR 0x8D] @
               '' AI Travel Planner '' @ [CHR 0xE2, CHR 0x9C, CHR 0x88, CHR 0xEF, CHR 0xB8, CHR 0x8F] @ ''</h1>''),
             St_markdown ''Plan your perfect trip with AI-powered research and real-time information!''] s;
          (ok, s2) = setup_environment w s1
      in if \<not> ok then s2
         else
           (let s3 = emits
                  [St_sidebar,
                   St_expander ([CHR 0xE2, CHR 0x84, CHR 0xB9, CHR 0xEF, CHR 0xB8, CHR 0x8F] @ '' About This App''),
                   St_markdown about_text,
                   St_expander ([CHR 0xF0, CHR 0x9F, CHR 0x9A, CHR 0x80] @ '' Quick Start''),
                   St_markdown quick_start_text,
                   St_spinner ([CHR 0xF0, CHR 0x9F, CHR 0x94, CHR 0x84] @ '' Initializing AI agents...'')] s2
            in case initialize_agents w s3 of
                 (None, s4) \<Rightarrow>
                   emit (St_error ''Failed to initialize agents. Please check your configuration.'') s4
               | (Some ags, s4) \<Rightarrow> trip_form w f ags s4))\<close>

subsection \<open>Reading a trace\<close>

text \<open>The events a computation added: the trace of the later state without the events
  of the earlier one.\<close>

definition since :: "state \<Rightarrow> state \<Rightarrow> event list" where
  "since s s' = drop (length (trace s)) (trace s')"

text \<open>The model calls of a trace, in order: a call starts when \<^verbatim>\<open>agent.run\<close> or
  \<^verbatim>\<open>llm.invoke\<close> is entered with its full prompt, and ends by returning its text or
  by raising. The first component is the name of the agent making the call.\<close>

datatype mark = Started string string | Finished string string | Failed string exn

fun mark_of :: "event \<Rightarrow> mark list" where
  "mark_of (Agent_run n ex p) = [Started n p]"
| "mark_of (Llm_invoke n m p) = [Started n p]"
| "mark_of (Returned n x) = [Finished n x]"
| "mark_of (Raised n e) = [Failed n e]"
| "mark_of _ = []"

definition marks :: "event list \<Rightarrow> mark list" where
  "marks evs = concat (map mark_of evs)"

fun caller_of :: "mark \<Rightarrow> string list" where
  "caller_of (Started n p) = [n]"
| "caller_of _ = []"

definition callers :: "event list \<Rightarrow> string list" where
  "callers evs = concat (map caller_of (marks evs))"

text \<open>\<open>in_order names ms\<close>: the calls of \<open>ms\<close> are made by \<open>names\<close>, one call each, in
  that order and without a gap; each call has ended before the next starts; a call that
  raises is the last one.\<close>

fun in_order :: "string list \<Rightarrow> mark list \<Rightarrow> bool" where
  "in_order names [] = True"
| "in_order (a # names) (Started b p # Finished c x # ms) = (a = b \<and> b = c \<and> in_order names ms)"
| "in_order (a # names) (Started b p # Failed c e # ms) = (a = b \<and> b = c \<and> ms = [])"
| "in_order names ms = False"

text \<open>The events that show the final plan, and those that offer a download.\<close>

fun shows_plan :: "event \<Rightarrow> bool" where
  \<open>shows_plan (St_markdown m) = prefix ''<div class="success-box">'' m\<close>
| "shows_plan ev = False"

fun is_download :: "event \<Rightarrow> bool" where
  "is_download (St_download_button l d n t) = True"
| "is_download ev = False"

definition is_final :: "event \<Rightarrow> bool" where
  "is_final ev = (shows_plan ev \<or> is_download ev)"

text \<open>The event at which an exception with text \<open>e\<close> can leave \<^verbatim>\<open>run\<close>: a model call
  that raised it, or the re-initialisation of the executor.\<close>

fun raising :: "exn \<Rightarrow> event \<Rightarrow> bool" where
  "raising e (Raised n e') = (e' = e)"
| "raising e (Initialize_agent tls) = True"
| "raising e ev = False"

fun is_input :: "event \<Rightarrow> bool" where
  "is_input (St_text_input l p) = True"
| "is_input (St_date_input l) = True"
| "is_input ev = False"

fun is_button :: "event \<Rightarrow> bool" where
  "is_button (St_button l) = True"
| "is_button ev = False"

fun uses_tools :: "event \<Rightarrow> bool" where
  "uses_tools (Initialize_agent tls) = True"
| "uses_tools (Agent_run n ex p) = True"
| "uses_tools ev = False"


text \<open>The two marks of a call by agent \<open>a\<close> with prompt \<open>q\<close> that returned \<open>x\<close>, and
  the two events that present a finished plan.\<close>

definition call_pair :: "TravelAgent \<Rightarrow> string \<Rightarrow> string \<Rightarrow> string \<Rightarrow> string \<Rightarrow> mark list" where
  "call_pair a sid ts q x = [Started (name a) (full_prompt a sid ts q), Finished (name a) x]"

definition final_events :: "form \<Rightarrow> string \<Rightarrow> event list" where
  "final_events f plan =
     [St_markdown (success_box plan),
      St_download_button ([CHR 0xF0, CHR 0x9F, CHR 0x93, CHR 0xA5] @ '' Download Travel Plan'')
        plan (file_name f) ''text/plain'']"

text \<open>A computation is quiet when it only adds events, none of them a model call, an
  input widget, a button, the final plan or a download.\<close>

definition quiet :: "state \<Rightarrow> state \<Rightarrow> bool" where
  "quiet s s' =
     (\<exists>new. trace s' = trace s @ new \<and> marks new = [] \<and> filter is_input new = [] \<and>
        filter is_button new = [] \<and> filter is_final new = [])"

text \<open>The test \<^verbatim>\<open>run\<close> makes before it chooses between the executor and the model.\<close>

definition tool_using :: "TravelAgent \<Rightarrow> bool" where
  "tool_using a = (use_agent a \<and> agent a \<noteq> None)"

text \<open>The same agent object invoked on one prompt after another, as the cached agents
  are over the runs of the script: each call starts from the object the call before it
  left. The tools of the executors that a trace runs.\<close>

fun run_all :: "world \<Rightarrow> TravelAgent \<Rightarrow> string list \<Rightarrow> state \<Rightarrow> TravelAgent \<times> state" where
  "run_all w a [] s = (a, s)"
| "run_all w a (q # qs) s = (case run w a q s of (r, a', s') \<Rightarrow> run_all w a' qs s')"


subsection \<open>Example inputs\<close>

text \<open>Concrete worlds and a concrete form, used to run the model: every library call
  succeeds; the tool-using executor raises; Composio finds no tool.\<close>

definition init_state :: state where
  "init_state = \<lparr>trace = [], tick = 0, environ = Map.empty\<rparr>"

definition world_ok :: world where
  "world_ok =
     \<lparr>secrets = Inr [''GOOGLE_API_KEY'' \<mapsto> ''key''],
      ComposioToolSet = (\<lambda>n. None),
      get_tools = (\<lambda>n. Inr [''TAVILY_SEARCH'']),
      add_tool = (\<lambda>n. None),
      ChatGoogleGenerativeAI = (\<lambda>n m. None),
      initialize_agent = (\<lambda>n tls m. None),
      agent_run = (\<lambda>n ex p. Inr ''found''),
      llm_invoke = (\<lambda>n m p. Inr (With_content ''plan'')),
      uuid4 = (\<lambda>n. ''123e4567-e89b-12d3-a456-426614174000''),
      now = (\<lambda>n. ''2025-01-01 09:00:00'')\<rparr>"

definition world_failing :: world where
  "world_failing = world_ok\<lparr>agent_run := (\<lambda>n ex p. Inl ''quota exceeded'')\<rparr>"

definition world_no_tools :: world where
  "world_no_tools = world_ok\<lparr>get_tools := (\<lambda>n. Inr []), add_tool := (\<lambda>n. Some ''no such tool'')\<rparr>"

definition example_form :: form where
  "example_form =
     \<lparr>origin = ''Pune'', start_date = \<lparr>year = 2025, month = 6, day = 1\<rparr>, budget = ''$2000'',
      destination = ''New York'', end_date = \<lparr>year = 2025, month = 6, day = 10\<rparr>,
      interests = ''food'', button = True\<rparr>"

definition gemini :: chat_model where
  "gemini = \<lparr>model = ''gemini-2.0-flash'', google_api_key = Some ''key''\<rparr>"

definition searcher :: "string \<Rightarrow> TravelAgent" where
  "searcher nm =
     \<lparr>name = nm, role = ''Specialist'', goal = ''Provide current info'', backstory = ''You are an expert.'',
      llm = gemini, tools = [''TAVILY_SEARCH''], use_agent = True,
      agent = Some \<lparr>ex_tools = [''TAVILY_SEARCH''], ex_llm = gemini, max_iterations = None,
                    early_stopping_method = None\<rparr>\<rparr>"

definition example_agents :: agents where
  "example_agents =
     \<lparr>researcher = searcher ''Researcher'', planner = searcher ''Planner'',
      budget_expert = searcher ''Budget Expert'', local_expert = searcher ''Local Expert'',
      summarizer =
        \<lparr>name = ''Summarizer'', role = ''Summarization Specialist'', goal = ''Summarize'',
         backstory = ''You are an expert summarizer.'', llm = gemini, tools = [], use_agent = False,
         agent = None\<rparr>\<rparr>"

section \<open>Properties\<close>

subsection \<open>Traces\<close>

lemma since_append: "trace s' = trace s @ new \<Longrightarrow> since s s' = new"
  by (simp add: since_def)

lemma marks_Nil: "marks [] = []"
  by (simp add: marks_def)

lemma marks_Cons: "marks (e # es) = mark_of e @ marks es"
  by (simp add: marks_def)

lemma marks_append: "marks (xs @ ys) = marks xs @ marks ys"
  by (simp add: marks_def)

lemma trace_emit: "trace (emit e s) = trace s @ [e]"
  by (simp add: emit_def)

lemma trace_emits: "trace (emits es s) = trace s @ es"
  by (simp add: emits_def)

lemma trace_advance: "trace (advance s) = trace s"
  by (simp add: advance_def)

lemma tick_emit: "tick (emit e s) = tick s"
  by (simp add: emit_def)

lemma tick_emits: "tick (emits es s) = tick s"
  by (simp add: emits_def)

lemma tick_advance: "tick (advance s) = Suc (tick s)"
  by (simp add: advance_def)

lemmas st_simps = trace_emit trace_emits trace_advance tick_emit tick_emits tick_advance

lemma prefix_agent_response: \<open>prefix ''<div class="success-box">'' (agent_response x) = False\<close>
  by (simp add: agent_response_def)

lemma prefix_success_box: \<open>prefix ''<div class="success-box">'' (success_box x) = True\<close>
  by (simp add: success_box_def)

lemma prefix_error_box: \<open>prefix ''<div class="success-box">'' (error_box x) = False\<close>
  by (simp add: error_box_def)

lemmas step_simps = Let_def st_simps marks_append marks_Nil marks_Cons is_final_def
  prefix_agent_response prefix_success_box prefix_error_box

lemma filter_shows_plan: "filter shows_plan (filter is_final evs) = filter shows_plan evs"
  by (induction evs) (auto simp: is_final_def)

lemma filter_is_download: "filter is_download (filter is_final evs) = filter is_download evs"
  by (induction evs) (auto simp: is_final_def)

subsection \<open>One call of \<open>run\<close>\<close>

lemma run_returns:
  assumes "run w a q s = (Inr x, a', s')"
  shows "\<exists>new sid ts. trace s' = trace s @ new \<and> filter is_final new = [] \<and>
           marks new = call_pair a sid ts q x"
  using assms
  by (auto simp: run_def call_pair_def step_simps
           split: if_splits option.splits sum.splits chat_response.splits; blast)

lemma run_raises:
  assumes "run w a q s = (Inl e, a', s')"
  shows "\<exists>new. trace s' = trace s @ new \<and> filter is_final new = [] \<and> new \<noteq> [] \<and> raising e (last new) \<and>
           (marks new = [] \<or> (\<exists>sid ts. marks new = [Started (name a) (full_prompt a sid ts q), Failed (name a) e]))"
  using assms
  by (auto simp: run_def step_simps
           split: if_splits option.splits sum.splits chat_response.splits; blast)

lemma run_widgets:
  assumes "run w a q s = (r, a', s')"
  shows "\<exists>new. trace s' = trace s @ new \<and> filter is_input new = [] \<and> filter is_button new = []"
  using assms
  by (auto simp: run_def step_simps
           split: if_splits option.splits sum.splits chat_response.splits)


lemma run_direct:
  assumes "\<not> tool_using a" and "run w a q s = (r, a', s')"
  shows "a' = a \<and> filter uses_tools (since s s') = [] \<and>
         (\<exists>p. (\<exists>x. r = Inr x \<and> since s s' = [Llm_invoke (name a) (llm a) p, Returned (name a) x] \<and>
                  (llm_invoke w (Suc (Suc (tick s))) (llm a) p = Inr (With_content x) \<or>
                   llm_invoke w (Suc (Suc (tick s))) (llm a) p = Inr (Without_content x))) \<or>
              (\<exists>e. r = Inl e \<and> since s s' = [Llm_invoke (name a) (llm a) p, Raised (name a) e] \<and>
                  llm_invoke w (Suc (Suc (tick s))) (llm a) p = Inl e))"
  using assms
  by (auto simp: run_def tool_using_def since_def step_simps
           split: if_splits option.splits sum.splits chat_response.splits)

subsection \<open>The steps of the pipeline\<close>

lemma step5_returns:
  assumes "step5_summary w f ags x1 x2 x3 x4 s = (Inr u, s')"
  shows "\<exists>new sid5 ts5 x5. trace s' = trace s @ new \<and>
           marks new = call_pair (summarizer ags) sid5 ts5 (summary_prompt x1 x2 x3 x4) x5 \<and>
           filter is_final new = final_events f x5"
  using assms
  by (auto simp: step5_summary_def step_simps final_events_def split: prod.splits sum.splits
           dest!: run_returns; blast)

lemma step4_returns:
  assumes "step4_local w f ags x1 x2 x3 s = (Inr u, s')"
  shows "\<exists>new sid4 ts4 x4 sid5 ts5 x5. trace s' = trace s @ new \<and>
           marks new = call_pair (local_expert ags) sid4 ts4 (local_query f) x4 @
                       call_pair (summarizer ags) sid5 ts5 (summary_prompt x1 x2 x3 x4) x5 \<and>
           filter is_final new = final_events f x5"
  using assms
  by (auto simp: step4_local_def step_simps split: prod.splits sum.splits
           dest!: run_returns step5_returns; blast)

lemma step3_returns:
  assumes "step3_budget w f ags x1 x2 s = (Inr u, s')"
  shows "\<exists>new sid3 ts3 x3 sid4 ts4 x4 sid5 ts5 x5. trace s' = trace s @ new \<and>
           marks new = call_pair (budget_expert ags) sid3 ts3 (budget_query f) x3 @
                       call_pair (local_expert ags) sid4 ts4 (local_query f) x4 @
                       call_pair (summarizer ags) sid5 ts5 (summary_prompt x1 x2 x3 x4) x5 \<and>
           filter is_final new = final_events f x5"
  using assms
  by (auto simp: step3_budget_def step_simps split: prod.splits sum.splits
           dest!: run_returns step4_returns; blast)

lemma step2_returns:
  assumes "step2_itinerary w f ags x1 s = (Inr u, s')"
  shows "\<exists>new sid2 ts2 x2 sid3 ts3 x3 sid4 ts4 x4 sid5 ts5 x5. trace s' = trace s @ new \<and>
           marks new = call_pair (planner ags) sid2 ts2 (itinerary_query f) x2 @
                       call_pair (budget_expert ags) sid3 ts3 (budget_query f) x3 @
                       call_pair (local_expert ags) sid4 ts4 (local_query f) x4 @
                       call_pair (summarizer ags) sid5 ts5 (summary_prompt x1 x2 x3 x4) x5 \<and>
           filter is_final new = final_events f x5"
  using assms
  by (auto simp: step2_itinerary_def step_simps split: prod.splits sum.splits
           dest!: run_returns step3_returns; blast)

lemma step1_returns:
  assumes "step1_research w f ags s = (Inr u, s')"
  shows "\<exists>new sid1 ts1 x1 sid2 ts2 x2 sid3 ts3 x3 sid4 ts4 x4 sid5 ts5 x5. trace s' = trace s @ new \<and>
           marks new = call_pair (researcher ags) sid1 ts1 (research_query f) x1 @
                       call_pair (planner ags) sid2 ts2 (itinerary_query f) x2 @
                       call_pair (budget_expert ags) sid3 ts3 (budget_query f) x3 @
                       call_pair (local_expert ags) sid4 ts4 (local_query f) x4 @
                       call_pair (summarizer ags) sid5 ts5 (summary_prompt x1 x2 x3 x4) x5 \<and>
           filter is_final new = final_events f x5"
  using assms
  by (auto simp: step1_research_def step_simps split: prod.splits sum.splits
           dest!: run_returns step2_returns; blast)

lemma step5_raises:
  assumes "step5_summary w f ags x1 x2 x3 x4 s = (Inl e, s')"
  shows "\<exists>new. trace s' = trace s @ new \<and> filter is_final new = [] \<and> new \<noteq> [] \<and>
           raising e (last new)"
  using assms
  by (auto simp: step5_summary_def step_simps split: prod.splits sum.splits
           dest!: run_raises run_returns)

lemma step4_raises:
  assumes "step4_local w f ags x1 x2 x3 s = (Inl e, s')"
  shows "\<exists>new. trace s' = trace s @ new \<and> filter is_final new = [] \<and> new \<noteq> [] \<and>
           raising e (last new)"
  using assms
  by (auto simp: step4_local_def step_simps split: prod.splits sum.splits
           dest!: run_raises run_returns step5_raises)

lemma step3_raises:
  assumes "step3_budget w f ags x1 x2 s = (Inl e, s')"
  shows "\<exists>new. trace s' = trace s @ new \<and> filter is_final new = [] \<and> new \<noteq> [] \<and>
           raising e (last new)"
  using assms
  by (auto simp: step3_budget_def step_simps split: prod.splits sum.splits
           dest!: run_raises run_returns step4_raises)

lemma step2_raises:
  assumes "step2_itinerary w f ags x1 s = (Inl e, s')"
  shows "\<exists>new. trace s' = trace s @ new \<and> filter is_final new = [] \<and> new \<noteq> [] \<and>
           raising e (last new)"
  using assms
  by (auto simp: step2_itinerary_def step_simps split: prod.splits sum.splits
           dest!: run_raises run_returns step3_raises)

lemma step1_raises:
  assumes "step1_research w f ags s = (Inl e, s')"
  shows "\<exists>new. trace s' = trace s @ new \<and> filter is_final new = [] \<and> new \<noteq> [] \<and>
           raising e (last new)"
  using assms
  by (auto simp: step1_research_def step_simps split: prod.splits sum.splits
           dest!: run_raises run_returns step2_raises)

lemma in_order_pair: "in_order (name a # names) (call_pair a sid ts q x @ ms) = in_order names ms"
  by (simp add: call_pair_def)

lemma in_order_pair_last: "in_order (name a # names) (call_pair a sid ts q x)"
  by (simp add: call_pair_def)

lemma step5_order:
  assumes "step5_summary w f ags x1 x2 x3 x4 s = (r, s')"
  shows "\<exists>new. trace s' = trace s @ new \<and>
           in_order [name (summarizer ags)] (marks new)"
  using assms
  by (auto simp: step5_summary_def step_simps in_order_pair in_order_pair_last split: prod.splits sum.splits
           dest!: run_raises run_returns)

lemma step4_order:
  assumes "step4_local w f ags x1 x2 x3 s = (r, s')"
  shows "\<exists>new. trace s' = trace s @ new \<and>
           in_order [name (local_expert ags), name (summarizer ags)] (marks new)"
  using assms
  by (auto simp: step4_local_def step_simps in_order_pair in_order_pair_last split: prod.splits sum.splits
           dest!: run_raises run_returns step5_order)

lemma step3_order:
  assumes "step3_budget w f ags x1 x2 s = (r, s')"
  shows "\<exists>new. trace s' = trace s @ new \<and>
           in_order [name (budget_expert ags), name (local_expert ags), name (summarizer ags)] (marks new)"
  using assms
  by (auto simp: step3_budget_def step_simps in_order_pair in_order_pair_last split: prod.splits sum.splits
           dest!: run_raises run_returns step4_order)

lemma step2_order:
  assumes "step2_itinerary w f ags x1 s = (r, s')"
  shows "\<exists>new. trace s' = trace s @ new \<and>
           in_order [name (planner ags), name (budget_expert ags), name (local_expert ags), name (summarizer ags)] (marks new)"
  using assms
  by (auto simp: step2_itinerary_def step_simps in_order_pair in_order_pair_last split: prod.splits sum.splits
           dest!: run_raises run_returns step3_order)

lemma step1_order:
  assumes "step1_research w f ags s = (r, s')"
  shows "\<exists>new. trace s' = trace s @ new \<and>
           in_order [name (researcher ags), name (planner ags), name (budget_expert ags), name (local_expert ags), name (summarizer ags)] (marks new)"
  using assms
  by (auto simp: step1_research_def step_simps in_order_pair in_order_pair_last split: prod.splits sum.splits
           dest!: run_raises run_returns step2_order)

lemma step5_widgets:
  assumes "step5_summary w f ags x1 x2 x3 x4 s = (r, s')"
  shows "\<exists>new. trace s' = trace s @ new \<and> filter is_input new = [] \<and> filter is_button new = []"
  using assms
  by (auto simp: step5_summary_def step_simps split: prod.splits sum.splits
           dest!: run_widgets)

lemma step4_widgets:
  assumes "step4_local w f ags x1 x2 x3 s = (r, s')"
  shows "\<exists>new. trace s' = trace s @ new \<and> filter is_input new = [] \<and> filter is_button new = []"
  using assms
  by (auto simp: step4_local_def step_simps split: prod.splits sum.splits
           dest!: run_widgets step5_widgets)

lemma step3_widgets:
  assumes "step3_budget w f ags x1 x2 s = (r, s')"
  shows "\<exists>new. trace s' = trace s @ new \<and> filter is_input new = [] \<and> filter is_button new = []"
  using assms
  by (auto simp: step3_budget_def step_simps split: prod.splits sum.splits
           dest!: run_widgets step4_widgets)

lemma step2_widgets:
  assumes "step2_itinerary w f ags x1 s = (r, s')"
  shows "\<exists>new. trace s' = trace s @ new \<and> filter is_input new = [] \<and> filter is_button new = []"
  using assms
  by (auto simp: step2_itinerary_def step_simps split: prod.splits sum.splits
           dest!: run_widgets step3_widgets)

lemma step1_widgets:
  assumes "step1_research w f ags s = (r, s')"
  shows "\<exists>new. trace s' = trace s @ new \<and> filter is_input new = [] \<and> filter is_button new = []"
  using assms
  by (auto simp: step1_research_def step_simps split: prod.splits sum.splits
           dest!: run_widgets step2_widgets)

subsection \<open>Before the form\<close>

lemma quiet_refl: "quiet s s"
  by (simp add: quiet_def marks_Nil)

lemma quiet_trans: "quiet s s1 \<Longrightarrow> quiet s1 s2 \<Longrightarrow> quiet s s2"
  by (auto simp: quiet_def marks_append)

lemma quiet_advance: "quiet s (advance s)"
  by (simp add: quiet_def st_simps marks_Nil)

lemma quiet_emit_error: "quiet s (emit (St_error m) s)"
  by (simp add: quiet_def step_simps)

lemma quiet_emit_warning: "quiet s (emit (St_warning m) s)"
  by (simp add: quiet_def step_simps)

lemma setup_environment_quiet: "setup_environment w s = (ok, s') \<Longrightarrow> quiet s s'"
  by (auto simp: quiet_def setup_environment_def copy_secret_def step_simps setup_instructions_def
           split: sum.splits option.splits)

lemma initialize_composio_tools_quiet: "initialize_composio_tools w s = (tls, s') \<Longrightarrow> quiet s s'"
  by (auto simp: quiet_def initialize_composio_tools_def composio_error_def tavily_error_def step_simps
           split: sum.splits option.splits if_splits)

lemma TravelAgent_init_quiet: "TravelAgent_init w nm rl gl bs lm tls ua s = (r, s') \<Longrightarrow> quiet s s'"
  by (auto simp: quiet_def TravelAgent_init_def step_simps split: sum.splits option.splits if_splits)

lemma TravelAgent_init_Inr:
  assumes "TravelAgent_init w nm rl gl bs lm tls ua s = (Inr a, s')"
  shows "name a = nm \<and> role a = rl \<and> goal a = gl \<and> backstory a = bs \<and> llm a = lm \<and> tools a = tls \<and>
         use_agent a = ua \<and> (agent a \<noteq> None) = (ua \<and> tls \<noteq> [])"
  using assms
  by (auto simp: TravelAgent_init_def Let_def split: option.splits if_splits)

lemma bindE:
  assumes "bind m k s = (r, s')"
  obtains (raised) e where "m s = (Inl e, s')" "r = Inl e"
        | (continued) x s1 where "m s = (Inr x, s1)" "k x s1 = (r, s')"
  using assms by (auto simp: bind_def split: prod.splits sum.splits)

lemma agents_body_quiet:
  assumes "bind (TravelAgent_init w n1 r1 g1 b1 l1 t1 u1) (\<lambda>a1.
           bind (TravelAgent_init w n2 r2 g2 b2 l2 t2 u2) (\<lambda>a2.
           bind (TravelAgent_init w n3 r3 g3 b3 l3 t3 u3) (\<lambda>a3.
           bind (TravelAgent_init w n4 r4 g4 b4 l4 t4 u4) (\<lambda>a4.
           bind (TravelAgent_init w n5 r5 g5 b5 l5 t5 u5) (\<lambda>a5.
           Pair (Inr \<lparr>researcher = a1, planner = a2, budget_expert = a3, local_expert = a4,
                       summarizer = a5\<rparr>)))))) s = (r, s')"
  shows "quiet s s'"
  using assms
  by (elim bindE; clarsimp dest!: TravelAgent_init_quiet; (blast intro: quiet_trans quiet_refl)?)

lemma agents_body_Inr:
  assumes "bind (TravelAgent_init w n1 r1 g1 b1 l1 t1 u1) (\<lambda>a1.
           bind (TravelAgent_init w n2 r2 g2 b2 l2 t2 u2) (\<lambda>a2.
           bind (TravelAgent_init w n3 r3 g3 b3 l3 t3 u3) (\<lambda>a3.
           bind (TravelAgent_init w n4 r4 g4 b4 l4 t4 u4) (\<lambda>a4.
           bind (TravelAgent_init w n5 r5 g5 b5 l5 t5 u5) (\<lambda>a5.
           Pair (Inr \<lparr>researcher = a1, planner = a2, budget_expert = a3, local_expert = a4,
                       summarizer = a5\<rparr>)))))) s = (Inr ags, s')"
  shows "\<exists>s1 s2 s3 s4 s5 s6.
           TravelAgent_init w n1 r1 g1 b1 l1 t1 u1 s1 = (Inr (researcher ags), s2) \<and>
           TravelAgent_init w n2 r2 g2 b2 l2 t2 u2 s2 = (Inr (planner ags), s3) \<and>
           TravelAgent_init w n3 r3 g3 b3 l3 t3 u3 s3 = (Inr (budget_expert ags), s4) \<and>
           TravelAgent_init w n4 r4 g4 b4 l4 t4 u4 s4 = (Inr (local_expert ags), s5) \<and>
           TravelAgent_init w n5 r5 g5 b5 l5 t5 u5 s5 = (Inr (summarizer ags), s6)"
  using assms
  by (elim bindE; clarsimp; blast)

lemma agents_body_props:
  assumes "bind (TravelAgent_init w n1 r1 g1 b1 l1 t1 u1) (\<lambda>a1.
           bind (TravelAgent_init w n2 r2 g2 b2 l2 t2 u2) (\<lambda>a2.
           bind (TravelAgent_init w n3 r3 g3 b3 l3 t3 u3) (\<lambda>a3.
           bind (TravelAgent_init w n4 r4 g4 b4 l4 t4 u4) (\<lambda>a4.
           bind (TravelAgent_init w n5 r5 g5 b5 l5 t5 u5) (\<lambda>a5.
           Pair (Inr \<lparr>researcher = a1, planner = a2, budget_expert = a3, local_expert = a4,
                       summarizer = a5\<rparr>)))))) s = (Inr ags, s')"
  shows "name (researcher ags) = n1 \<and> name (planner ags) = n2 \<and> name (budget_expert ags) = n3 \<and>
         name (local_expert ags) = n4 \<and> name (summarizer ags) = n5 \<and>
         tools (researcher ags) = t1 \<and> tools (planner ags) = t2 \<and> tools (budget_expert ags) = t3 \<and>
         tools (local_expert ags) = t4 \<and> tools (summarizer ags) = t5 \<and>
         use_agent (researcher ags) = u1 \<and> use_agent (planner ags) = u2 \<and>
         use_agent (budget_expert ags) = u3 \<and> use_agent (local_expert ags) = u4 \<and>
         use_agent (summarizer ags) = u5 \<and>
         (agent (researcher ags) \<noteq> None) = (u1 \<and> t1 \<noteq> []) \<and>
         (agent (planner ags) \<noteq> None) = (u2 \<and> t2 \<noteq> []) \<and>
         (agent (budget_expert ags) \<noteq> None) = (u3 \<and> t3 \<noteq> []) \<and>
         (agent (local_expert ags) \<noteq> None) = (u4 \<and> t4 \<noteq> []) \<and>
         (agent (summarizer ags) \<noteq> None) = (u5 \<and> t5 \<noteq> [])"
proof -
  from agents_body_Inr[OF assms] obtain s1 s2 s3 s4 s5 s6 where
    "TravelAgent_init w n1 r1 g1 b1 l1 t1 u1 s1 = (Inr (researcher ags), s2)"
    "TravelAgent_init w n2 r2 g2 b2 l2 t2 u2 s2 = (Inr (planner ags), s3)"
    "TravelAgent_init w n3 r3 g3 b3 l3 t3 u3 s3 = (Inr (budget_expert ags), s4)"
    "TravelAgent_init w n4 r4 g4 b4 l4 t4 u4 s4 = (Inr (local_expert ags), s5)"
    "TravelAgent_init w n5 r5 g5 b5 l5 t5 u5 s5 = (Inr (summarizer ags), s6)"
    by blast
  from this[THEN TravelAgent_init_Inr] show ?thesis by simp
qed

lemma build_agents_quiet: "build_agents w lm tls s = (r, s') \<Longrightarrow> quiet s s'"
  unfolding build_agents_def by (rule agents_body_quiet)

lemma build_agents_Inr:
  assumes "build_agents w lm tls s = (Inr ags, s')"
  shows "name (researcher ags) = ''Researcher'' \<and> name (planner ags) = ''Planner'' \<and>
         name (budget_expert ags) = ''Budget Expert'' \<and> name (local_expert ags) = ''Local Expert'' \<and>
         name (summarizer ags) = ''Summarizer'' \<and>
         tools (researcher ags) = tls \<and> tools (planner ags) = tls \<and>
         tools (budget_expert ags) = tls \<and> tools (local_expert ags) = tls \<and>
         tools (summarizer ags) = [] \<and>
         use_agent (researcher ags) \<and> use_agent (planner ags) \<and> use_agent (budget_expert ags) \<and>
         use_agent (local_expert ags) \<and> \<not> use_agent (summarizer ags) \<and>
         (agent (researcher ags) \<noteq> None) = (tls \<noteq> []) \<and>
         (agent (planner ags) \<noteq> None) = (tls \<noteq> []) \<and>
         (agent (budget_expert ags) \<noteq> None) = (tls \<noteq> []) \<and>
         (agent (local_expert ags) \<noteq> None) = (tls \<noteq> []) \<and>
         agent (summarizer ags) = None"
  using agents_body_props[OF assms[unfolded build_agents_def]] by simp

lemma initialize_agents_quiet:
  assumes "initialize_agents w s = (r, s')"
  shows "quiet s s'"
proof (cases "ChatGoogleGenerativeAI w (tick s)
                \<lparr>model = ''gemini-2.0-flash'', google_api_key = environ s ''GOOGLE_API_KEY''\<rparr>")
  case (Some e)
  with assms have "s' = emit (St_error (''Error initializing agents: '' @ e)) (advance s)"
    by (simp add: initialize_agents_def agents_error_def)
  then show ?thesis
    using quiet_trans[OF quiet_advance quiet_emit_error] by simp
next
  case None
  obtain tls s1 where t: "initialize_composio_tools w (advance s) = (tls, s1)"
    by (cases "initialize_composio_tools w (advance s)")
  define s2 where
    "s2 = (if tls = [] then
             emit (St_warning ([CHR 0xE2, CHR 0x9A, CHR 0xA0, CHR 0xEF, CHR 0xB8, CHR 0x8F] @
               '' No search tools available. Some features may be limited.'')) s1
           else s1)"
  have q2: "quiet s s2"
    using quiet_trans[OF quiet_advance initialize_composio_tools_quiet[OF t]] quiet_emit_warning quiet_trans
    unfolding s2_def by (cases "tls = []") auto
  obtain r3 s3 where
    body: "build_agents w \<lparr>model = ''gemini-2.0-flash'', google_api_key = environ s ''GOOGLE_API_KEY''\<rparr>
             tls s2 = (r3, s3)"
    by (meson surj_pair)
  have q3: "quiet s s3"
    using q2 build_agents_quiet[OF body] quiet_trans by blast
  from assms None t body
  have "s' = s3 \<or> (\<exists>e. s' = emit (St_error (''Error initializing agents: '' @ e)) s3)"
    by (auto simp: initialize_agents_def agents_error_def Let_def s2_def split: sum.splits)
  then show ?thesis
    using q3 quiet_emit_error quiet_trans by blast
qed

lemma initialize_agents_Some:
  assumes "initialize_agents w s = (Some ags, s')"
  shows "name (researcher ags) = ''Researcher'' \<and> name (planner ags) = ''Planner'' \<and>
         name (budget_expert ags) = ''Budget Expert'' \<and> name (local_expert ags) = ''Local Expert'' \<and>
         name (summarizer ags) = ''Summarizer'' \<and>
         tools (researcher ags) = fst (initialize_composio_tools w (advance s)) \<and>
         tools (planner ags) = fst (initialize_composio_tools w (advance s)) \<and>
         tools (budget_expert ags) = fst (initialize_composio_tools w (advance s)) \<and>
         tools (local_expert ags) = fst (initialize_composio_tools w (advance s)) \<and>
         tools (summarizer ags) = [] \<and>
         use_agent (researcher ags) \<and> use_agent (planner ags) \<and> use_agent (budget_expert ags) \<and>
         use_agent (local_expert ags) \<and> \<not> use_agent (summarizer ags) \<and>
         (agent (researcher ags) \<noteq> None) = (tools (researcher ags) \<noteq> []) \<and>
         (agent (planner ags) \<noteq> None) = (tools (planner ags) \<noteq> []) \<and>
         (agent (budget_expert ags) \<noteq> None) = (tools (budget_expert ags) \<noteq> []) \<and>
         (agent (local_expert ags) \<noteq> None) = (tools (local_expert ags) \<noteq> []) \<and>
         agent (summarizer ags) = None"
proof -
  from assms obtain lm s2 where
    "build_agents w lm (fst (initialize_composio_tools w (advance s))) s2 = (Inr ags, s')"
    by (auto simp: initialize_agents_def agents_error_def Let_def
             split: option.splits prod.splits sum.splits)
  from build_agents_Inr[OF this] show ?thesis by simp
qed

subsection \<open>The form\<close>

lemma pipeline_widgets:
  assumes "pipeline w f ags s = (r, s')"
  shows "\<exists>new. trace s' = trace s @ new \<and> filter is_input new = [] \<and> filter is_button new = []"
  using assms unfolding pipeline_def by (rule step1_widgets)

lemma generate_widgets:
  "\<exists>new. trace (generate w f ags s) = trace s @ new \<and> filter is_input new = [] \<and> filter is_button new = []"
  by (auto simp: generate_def step_simps split: prod.splits sum.splits dest!: pipeline_widgets)

lemma trip_form_widgets:
  "\<exists>new. trace (trip_form w f ags s) = trace s @ new \<and>
     filter is_input new = filter is_input trip_details \<and>
     filter is_button new =
       (if date_ge (start_date f) (end_date f) then []
        else [St_button ([CHR 0xF0, CHR 0x9F, CHR 0x9A, CHR 0x80] @ '' Generate Travel Plan'')])"
  using generate_widgets[of w f ags
      "emit (St_button ([CHR 0xF0, CHR 0x9F, CHR 0x9A, CHR 0x80] @ '' Generate Travel Plan'')) (emits trip_details s)"]
  by (auto simp: trip_form_def footer_def step_simps trip_details_def)

lemma trip_form_invalid:
  assumes "date_ge (start_date f) (end_date f) \<or> (button f \<and> \<not> all_filled f)"
  shows "\<exists>new. trace (trip_form w f ags s) = trace s @ new \<and> marks new = [] \<and> filter is_final new = [] \<and>
           last new = St_error
             (if date_ge (start_date f) (end_date f)
              then [CHR 0xE2, CHR 0x9D, CHR 0x8C] @ '' End date must be after start date!''
              else [CHR 0xE2, CHR 0x9D, CHR 0x8C] @ '' Please fill in all fields!'')"
  using assms
  by (auto simp: trip_form_def step_simps trip_details_def)

lemma quiet_emits:
  assumes "marks es = []" "filter is_input es = []" "filter is_button es = []" "filter is_final es = []"
  shows "quiet s (emits es s)"
  using assms by (auto simp: quiet_def st_simps)

lemma main_cases:
  obtains (closed) "quiet s (main w f s)"
  | (form) ags s4 where "quiet s s4" "main w f s = trip_form w f ags s4"
proof -
  let ?s1 = "emits
            [St_markdown (''<h1 class=\"main-header\">'' @ [CHR 0xF0, CHR 0x9F, CHR 0x8C, CHR 0x8D] @
               '' AI Travel Planner '' @ [CHR 0xE2, CHR 0x9C, CHR 0x88, CHR 0xEF, CHR 0xB8, CHR 0x8F] @ ''</h1>''),
             St_markdown ''Plan your perfect trip with AI-powered research and real-time information!''] s"
  have q1: "quiet s ?s1"
    by (rule quiet_emits) (simp_all add: step_simps)
  obtain ok s2 where su: "setup_environment w ?s1 = (ok, s2)"
    by (meson surj_pair)
  have q2: "quiet s s2"
    by (rule quiet_trans[OF q1 setup_environment_quiet[OF su]])
  show ?thesis
  proof (cases ok)
    case False
    have "main w f s = s2"
      unfolding main_def Let_def using su False by simp
    with q2 closed show ?thesis by simp
  next
    case True
    let ?s3 = "emits
                  [St_sidebar,
                   St_expander ([CHR 0xE2, CHR 0x84, CHR 0xB9, CHR 0xEF, CHR 0xB8, CHR 0x8F] @ '' About This App''),
                   St_markdown about_text,
                   St_expander ([CHR 0xF0, CHR 0x9F, CHR 0x9A, CHR 0x80] @ '' Quick Start''),
                   St_markdown quick_start_text,
                   St_spinner ([CHR 0xF0, CHR 0x9F, CHR 0x94, CHR 0x84] @ '' Initializing AI agents...'')] s2"
    have "quiet s2 ?s3"
      by (rule quiet_emits) (simp_all add: step_simps about_text_def quick_start_text_def)
    then have q3: "quiet s ?s3"
      by (rule quiet_trans[OF q2])
    obtain r s4 where ia: "initialize_agents w ?s3 = (r, s4)"
      by (meson surj_pair)
    have q4: "quiet s s4"
      by (rule quiet_trans[OF q3 initialize_agents_quiet[OF ia]])
    show ?thesis
    proof (cases r)
      case None
      have "main w f s = emit (St_error ''Failed to initialize agents. Please check your configuration.'') s4"
        unfolding main_def Let_def using su True ia None by simp
      moreover have "quiet s (emit (St_error ''Failed to initialize agents. Please check your configuration.'') s4)"
        by (rule quiet_trans[OF q4 quiet_emit_error])
      ultimately show ?thesis using closed by simp
    next
      case (Some ags)
      have "main w f s = trip_form w f ags s4"
        unfolding main_def Let_def using su True ia Some by simp
      with q4 form show ?thesis by blast
    qed
  qed
qed

subsection \<open>Running the model\<close>

lemmas eval_defs = main_def trip_form_def generate_def pipeline_def step1_research_def step2_itinerary_def
  step3_budget_def step4_local_def step5_summary_def run_def footer_def all_filled_def date_ge_def date_lt_def
  setup_environment_def copy_secret_def initialize_agents_def build_agents_def bind_def TravelAgent_init_def
  initialize_composio_tools_def composio_error_def tavily_error_def agents_error_def
  emit_def emits_def advance_def Let_def init_state_def example_form_def

subsection \<open>Whole runs of the pipeline\<close>

lemma pipeline_returns:
  assumes "fst (pipeline w f ags s) = Inr u"
  shows "\<exists>sid1 ts1 x1 sid2 ts2 x2 sid3 ts3 x3 sid4 ts4 x4 sid5 ts5 x5.
           marks (since s (snd (pipeline w f ags s))) =
             call_pair (researcher ags) sid1 ts1 (research_query f) x1 @
             call_pair (planner ags) sid2 ts2 (itinerary_query f) x2 @
             call_pair (budget_expert ags) sid3 ts3 (budget_query f) x3 @
             call_pair (local_expert ags) sid4 ts4 (local_query f) x4 @
             call_pair (summarizer ags) sid5 ts5 (summary_prompt x1 x2 x3 x4) x5 \<and>
           filter is_final (since s (snd (pipeline w f ags s))) = final_events f x5"
proof -
  obtain s' where "step1_research w f ags s = (Inr u, s')"
    using assms unfolding pipeline_def by (cases "step1_research w f ags s") auto
  from step1_returns[OF this] this show ?thesis
    unfolding pipeline_def by (auto simp: since_append) blast
qed

lemma pipeline_raises:
  assumes "fst (pipeline w f ags s) = Inl e"
  shows "filter is_final (since s (snd (pipeline w f ags s))) = [] \<and>
         since s (snd (pipeline w f ags s)) \<noteq> [] \<and>
         raising e (last (since s (snd (pipeline w f ags s))))"
proof -
  obtain s' where "step1_research w f ags s = (Inl e, s')"
    using assms unfolding pipeline_def by (cases "step1_research w f ags s") auto
  from step1_raises[OF this] this show ?thesis
    unfolding pipeline_def by (auto simp: since_append)
qed

lemma pipeline_order:
  "in_order [name (researcher ags), name (planner ags), name (budget_expert ags),
             name (local_expert ags), name (summarizer ags)]
     (marks (since s (snd (pipeline w f ags s))))"
proof -
  obtain r s' where "step1_research w f ags s = (r, s')"
    by (meson surj_pair)
  from step1_order[OF this] this show ?thesis
    unfolding pipeline_def by (auto simp: since_append)
qed

lemma pipeline_extends:
  "trace (snd (pipeline w f ags s)) = trace s @ since s (snd (pipeline w f ags s))"
proof -
  obtain r s' where "step1_research w f ags s = (r, s')"
    by (meson surj_pair)
  from step1_order[OF this] this show ?thesis
    unfolding pipeline_def by (auto simp: since_append)
qed

lemma sublist_skip: "sublist xs ys \<Longrightarrow> sublist xs (ps @ ys)"
  by (metis append.assoc sublist_def)

lemma sublist_full_prompt: "sublist q (full_prompt a sid ts q)"
  unfolding full_prompt_def
  by (rule sublist_append_leftI | rule sublist_skip)+

lemma sublist_research_query:
  "sublist (origin f) (research_query f)" "sublist (destination f) (research_query f)"
  "sublist (isoformat (start_date f)) (research_query f)" "sublist (isoformat (end_date f)) (research_query f)"
  unfolding research_query_def by (rule sublist_appendI | rule sublist_skip)+

lemma sublist_itinerary_query:
  "sublist (destination f) (itinerary_query f)" "sublist (isoformat (start_date f)) (itinerary_query f)"
  "sublist (isoformat (end_date f)) (itinerary_query f)" "sublist (interests f) (itinerary_query f)"
  unfolding itinerary_query_def by (rule sublist_appendI | rule sublist_skip)+

lemma sublist_budget_query:
  "sublist (budget f) (budget_query f)" "sublist (destination f) (budget_query f)"
  "sublist (isoformat (start_date f)) (budget_query f)" "sublist (isoformat (end_date f)) (budget_query f)"
  unfolding budget_query_def by (rule sublist_appendI | rule sublist_skip)+

lemma sublist_local_query:
  "sublist (destination f) (local_query f)" "sublist (isoformat (start_date f)) (local_query f)"
  "sublist (isoformat (end_date f)) (local_query f)" "sublist (interests f) (local_query f)"
  unfolding local_query_def by (rule sublist_appendI | rule sublist_skip)+

lemma sublist_summary_prompt:
  "sublist x1 (summary_prompt x1 x2 x3 x4)" "sublist x2 (summary_prompt x1 x2 x3 x4)"
  "sublist x3 (summary_prompt x1 x2 x3 x4)" "sublist x4 (summary_prompt x1 x2 x3 x4)"
  unfolding summary_prompt_def by (rule sublist_appendI | rule sublist_skip)+

lemma example_run_returns: "fst (pipeline world_ok example_form example_agents init_state) = Inr ()"
  by (simp add: eval_defs world_ok_def example_agents_def searcher_def)

lemma example_run_raises:
  "fst (pipeline world_failing example_form example_agents init_state) = Inl ''quota exceeded''"
  by (simp add: eval_defs world_failing_def world_ok_def example_agents_def searcher_def)

subsection \<open>Repeated calls of one agent\<close>

lemma run_extends:
  assumes "run w a q s = (r, a', s')"
  shows "trace s' = trace s @ since s s'"
proof -
  from run_widgets[OF assms] obtain new where "trace s' = trace s @ new"
    by blast
  then show ?thesis
    using since_append by metis
qed

lemma run_all_Cons:
  assumes "run w a q s = (r, a', s')"
  shows "run_all w a (q # qs) s = run_all w a' qs s'"
  using assms by simp

lemma run_all_extends: "trace (snd (run_all w a qs s)) = trace s @ since s (snd (run_all w a qs s))"
proof (induction qs arbitrary: a s)
  case Nil
  show ?case by (simp add: since_def)
next
  case (Cons q qs)
  obtain r a' s' where r: "run w a q s = (r, a', s')"
    by (metis prod_cases3)
  have 1: "trace (snd (run_all w a' qs s')) = trace s' @ since s' (snd (run_all w a' qs s'))"
    by (rule Cons.IH)
  have 2: "trace s' = trace s @ since s s'"
    by (rule run_extends[OF r])
  have "trace (snd (run_all w a' qs s')) = trace s @ (since s s' @ since s' (snd (run_all w a' qs s')))"
    by (subst 1, subst 2, simp only: append_assoc)
  then have "since s (snd (run_all w a' qs s')) = since s s' @ since s' (snd (run_all w a' qs s'))"
    by (rule since_append)
  then have "trace (snd (run_all w a' qs s')) = trace s @ since s (snd (run_all w a' qs s'))"
    using 1 2 by (simp only: append_assoc)
  then show ?case
    unfolding run_all_Cons[OF r] .
qed

lemma since_run_all_Cons:
  assumes "run w a q s = (r, a', s')"
  shows "since s (snd (run_all w a' qs s')) = since s s' @ since s' (snd (run_all w a' qs s'))"
proof -
  have "trace (snd (run_all w a' qs s')) = (trace s @ since s s') @ since s' (snd (run_all w a' qs s'))"
    using run_all_extends[of w a' qs s'] run_extends[OF assms] by simp
  then have "trace (snd (run_all w a' qs s')) = trace s @ (since s s' @ since s' (snd (run_all w a' qs s')))"
    by (simp only: append_assoc)
  then show ?thesis
    by (rule since_append)
qed

lemma run_all_direct:
  assumes "\<not> tool_using a"
  shows "fst (run_all w a qs s) = a \<and> filter uses_tools (since s (snd (run_all w a qs s))) = []"
  using assms
proof (induction qs arbitrary: s)
  case Nil
  show ?case by (simp add: since_def)
next
  case (Cons q qs)
  obtain r a' s' where r: "run w a q s = (r, a', s')"
    by (metis prod_cases3)
  from run_direct[OF Cons.prems r] have d: "a' = a" and u: "filter uses_tools (since s s') = []"
    by simp_all
  have ih: "fst (run_all w a qs s') = a \<and> filter uses_tools (since s' (snd (run_all w a qs s'))) = []"
    by (rule Cons.IH[OF Cons.prems])
  show ?case
    unfolding run_all_Cons[OF r] d since_run_all_Cons[OF r[unfolded d]] using ih u by simp
qed



subsection \<open>Whole runs of the script\<close>

lemma since_trans:
  assumes "trace s1 = trace s @ a" and "trace s2 = trace s1 @ b"
  shows "since s s2 = a @ b"
  using assms by (simp add: since_def)

lemma main_trip_form:
  assumes "quiet s s4" and "main w f s = trip_form w f ags s4"
    and "trace (trip_form w f ags s4) = trace s4 @ new"
  shows "marks (since s (main w f s)) = marks new"
    and "filter is_final (since s (main w f s)) = filter is_final new"
    and "filter is_input (since s (main w f s)) = filter is_input new"
    and "filter is_button (since s (main w f s)) = filter is_button new"
proof -
  from assms(1) obtain a where a: "trace s4 = trace s @ a" "marks a = []" "filter is_input a = []"
    "filter is_button a = []" "filter is_final a = []"
    unfolding quiet_def by blast
  have "since s (main w f s) = a @ new"
    using since_trans[OF a(1)] assms(2,3) by simp
  then show "marks (since s (main w f s)) = marks new"
    and "filter is_final (since s (main w f s)) = filter is_final new"
    and "filter is_input (since s (main w f s)) = filter is_input new"
    and "filter is_button (since s (main w f s)) = filter is_button new"
    using a by (simp_all add: marks_append)
qed

lemma main_closed:
  assumes "quiet s (main w f s)"
  shows "marks (since s (main w f s)) = []" and "filter is_final (since s (main w f s)) = []"
    and "filter is_input (since s (main w f s)) = []" and "filter is_button (since s (main w f s)) = []"
  using assms unfolding quiet_def by (auto simp: since_append)

lemma trip_form_invalid_last:
  assumes "date_ge (start_date f) (end_date f) \<or> (button f \<and> \<not> all_filled f)"
  shows "last (trace (trip_form w f ags s)) =
           St_error
             (if date_ge (start_date f) (end_date f)
              then [CHR 0xE2, CHR 0x9D, CHR 0x8C] @ '' End date must be after start date!''
              else [CHR 0xE2, CHR 0x9D, CHR 0x8C] @ '' Please fill in all fields!'')"
  using assms by (auto simp: trip_form_def step_simps)

section \<open>The claims\<close>

subsection \<open>C1: the order of the model calls\<close>

lemma in_order_prefix: "in_order names ms \<Longrightarrow> prefix (concat (map caller_of ms)) names"
  by (induction names ms rule: in_order.induct) auto

text \<open>
  C1, as the code has it. In every run of the pipeline the model calls are made by an
  initial segment of: research agent, itinerary agent, budget agent, local-insights agent,
  summarizer, one call each and in that order; every call has returned before the next
  starts, and a call that raises is the last. A run that completes makes all five.
\<close>

theorem model_calls_in_fixed_order:
  "in_order [name (researcher ags), name (planner ags), name (budget_expert ags),
             name (local_expert ags), name (summarizer ags)]
     (marks (since s (snd (pipeline w f ags s)))) \<and>
   prefix (callers (since s (snd (pipeline w f ags s))))
     [name (researcher ags), name (planner ags), name (budget_expert ags),
      name (local_expert ags), name (summarizer ags)] \<and>
   (fst (pipeline w f ags s) = Inr u \<longrightarrow>
      callers (since s (snd (pipeline w f ags s))) =
        [name (researcher ags), name (planner ags), name (budget_expert ags),
         name (local_expert ags), name (summarizer ags)])"
proof (intro conjI impI)
  show o: "in_order [name (researcher ags), name (planner ags), name (budget_expert ags),
             name (local_expert ags), name (summarizer ags)]
     (marks (since s (snd (pipeline w f ags s))))"
    by (rule pipeline_order)
  show "prefix (callers (since s (snd (pipeline w f ags s))))
     [name (researcher ags), name (planner ags), name (budget_expert ags),
      name (local_expert ags), name (summarizer ags)]"
    unfolding callers_def by (rule in_order_prefix[OF o])
next
  assume "fst (pipeline w f ags s) = Inr u"
  from pipeline_returns[OF this] obtain sid1 ts1 x1 sid2 ts2 x2 sid3 ts3 x3 sid4 ts4 x4 sid5 ts5 x5
    where "marks (since s (snd (pipeline w f ags s))) =
             call_pair (researcher ags) sid1 ts1 (research_query f) x1 @
             call_pair (planner ags) sid2 ts2 (itinerary_query f) x2 @
             call_pair (budget_expert ags) sid3 ts3 (budget_query f) x3 @
             call_pair (local_expert ags) sid4 ts4 (local_query f) x4 @
             call_pair (summarizer ags) sid5 ts5 (summary_prompt x1 x2 x3 x4) x5"
    by blast
  then show "callers (since s (snd (pipeline w f ags s))) =
        [name (researcher ags), name (planner ags), name (budget_expert ags),
         name (local_expert ags), name (summarizer ags)]"
    by (simp add: callers_def call_pair_def)
qed

theorem model_calls_in_fixed_order_witness:
  "fst (pipeline world_ok example_form example_agents init_state) = Inr () \<and>
   in_order [''Researcher'', ''Planner'', ''Budget Expert'', ''Local Expert'', ''Summarizer'']
     (marks (since init_state (snd (pipeline world_ok example_form example_agents init_state)))) \<and>
   callers (since init_state (snd (pipeline world_ok example_form example_agents init_state))) =
     [''Researcher'', ''Planner'', ''Budget Expert'', ''Local Expert'', ''Summarizer'']"
proof -
  have h: "fst (pipeline world_ok example_form example_agents init_state) = Inr ()"
    by (simp add: eval_defs world_ok_def example_agents_def searcher_def)
  have names: "name (researcher example_agents) = ''Researcher''" "name (planner example_agents) = ''Planner''"
    "name (budget_expert example_agents) = ''Budget Expert''" "name (local_expert example_agents) = ''Local Expert''"
    "name (summarizer example_agents) = ''Summarizer''"
    by (simp_all add: example_agents_def searcher_def)
  show ?thesis
    using h model_calls_in_fixed_order[of example_agents init_state world_ok example_form "()"]
    unfolding names by blast
qed

text \<open>The claim as stated fails when a call raises: with an executor that raises, the
  whole script makes the research call and no other.\<close>

theorem five_calls_counterexample:
  "callers (trace (main world_failing example_form init_state)) = [''Researcher'']"
  by (simp add: eval_defs world_failing_def world_ok_def callers_def marks_def trip_details_def)

subsection \<open>C2: the widgets of the form\<close>

text \<open>
  C2, as the code has it. A run of the script either does not reach the form (no input
  widget, no button), or shows six input fields: four text inputs (departure city, total
  budget, destination city, interests) and two date inputs (start date, end date). The
  one submit button is shown when the start date is before the end date, and not
  otherwise.
\<close>

theorem form_has_six_inputs_and_one_button:
  "(filter is_input (since s (main w f s)) = [] \<and> filter is_button (since s (main w f s)) = []) \<or>
   (filter is_input (since s (main w f s)) =
      [St_text_input ([CHR 0xF0, CHR 0x9F, CHR 0x9B, CHR 0xAB] @ '' Departure City'') ''e.g., New York, NY'',
       St_date_input ([CHR 0xF0, CHR 0x9F, CHR 0x93, CHR 0x85] @ '' Start Date''),
       St_text_input ([CHR 0xF0, CHR 0x9F, CHR 0x92, CHR 0xB0] @ '' Total Budget'') ''e.g., $2000 USD'',
       St_text_input ([CHR 0xF0, CHR 0x9F, CHR 0x9B, CHR 0xAC] @ '' Destination City'') ''e.g., Paris, France'',
       St_date_input ([CHR 0xF0, CHR 0x9F, CHR 0x93, CHR 0x85] @ '' End Date''),
       St_text_input ([CHR 0xF0, CHR 0x9F, CHR 0x8E, CHR 0xAF] @ '' Interests'') ''museums, food, hiking, beaches''] \<and>
    filter is_button (since s (main w f s)) =
      (if date_ge (start_date f) (end_date f) then []
       else [St_button ([CHR 0xF0, CHR 0x9F, CHR 0x9A, CHR 0x80] @ '' Generate Travel Plan'')]))"
proof (cases rule: main_cases[of s w f])
  case closed
  from main_closed[OF closed] show ?thesis by simp
next
  case (form ags s4)
  from trip_form_widgets[of w f ags s4] obtain new where
    new: "trace (trip_form w f ags s4) = trace s4 @ new"
      "filter is_input new = filter is_input trip_details"
      "filter is_button new =
         (if date_ge (start_date f) (end_date f) then []
          else [St_button ([CHR 0xF0, CHR 0x9F, CHR 0x9A, CHR 0x80] @ '' Generate Travel Plan'')])"
    by blast
  have six: "filter is_input trip_details =
      [St_text_input ([CHR 0xF0, CHR 0x9F, CHR 0x9B, CHR 0xAB] @ '' Departure City'') ''e.g., New York, NY'',
       St_date_input ([CHR 0xF0, CHR 0x9F, CHR 0x93, CHR 0x85] @ '' Start Date''),
       St_text_input ([CHR 0xF0, CHR 0x9F, CHR 0x92, CHR 0xB0] @ '' Total Budget'') ''e.g., $2000 USD'',
       St_text_input ([CHR 0xF0, CHR 0x9F, CHR 0x9B, CHR 0xAC] @ '' Destination City'') ''e.g., Paris, France'',
       St_date_input ([CHR 0xF0, CHR 0x9F, CHR 0x93, CHR 0x85] @ '' End Date''),
       St_text_input ([CHR 0xF0, CHR 0x9F, CHR 0x8E, CHR 0xAF] @ '' Interests'') ''museums, food, hiking, beaches'']"
    by (simp add: trip_details_def)
  from main_trip_form(3,4)[OF form new(1)] new(2,3) six
  show ?thesis by simp
qed

text \<open>The claim as stated fails: a run that shows the form shows six input fields, not
  five; and with a start date that is not before the end date it shows no button.\<close>

theorem five_inputs_counterexample:
  "length (filter is_input (trace (main world_ok (example_form\<lparr>button := False\<rparr>) init_state))) = 6 \<and>
   length (filter is_button (trace (main world_ok (example_form\<lparr>button := False\<rparr>) init_state))) = 1 \<and>
   length (filter is_input
     (trace (main world_ok (example_form\<lparr>end_date := start_date example_form\<rparr>) init_state))) = 6 \<and>
   length (filter is_button
     (trace (main world_ok (example_form\<lparr>end_date := start_date example_form\<rparr>) init_state))) = 0"
  by (simp add: eval_defs world_ok_def trip_details_def)

subsection \<open>C3: the summarization call and the plan shown\<close>

text \<open>
  C3. In a run of the pipeline that completes there are five model calls, the last of
  them the only call of the summarizer; the prompt given to the summarizer, and with it
  the full prompt sent, holds the four earlier results as contiguous substrings; and the
  one event that shows the final plan is the success box around exactly the text the
  summarizer returned.
\<close>

theorem final_plan_from_one_summary:
  assumes "fst (pipeline w f ags s) = Inr u"
  shows "\<exists>p1 p2 p3 p4 sid ts flights_info itinerary budget_plan local_tips summarized_plan.
           marks (since s (snd (pipeline w f ags s))) =
             [Started (name (researcher ags)) p1, Finished (name (researcher ags)) flights_info,
              Started (name (planner ags)) p2, Finished (name (planner ags)) itinerary,
              Started (name (budget_expert ags)) p3, Finished (name (budget_expert ags)) budget_plan,
              Started (name (local_expert ags)) p4, Finished (name (local_expert ags)) local_tips,
              Started (name (summarizer ags))
                (full_prompt (summarizer ags) sid ts
                   (summary_prompt flights_info itinerary budget_plan local_tips)),
              Finished (name (summarizer ags)) summarized_plan] \<and>
           sublist flights_info (summary_prompt flights_info itinerary budget_plan local_tips) \<and>
           sublist itinerary (summary_prompt flights_info itinerary budget_plan local_tips) \<and>
           sublist budget_plan (summary_prompt flights_info itinerary budget_plan local_tips) \<and>
           sublist local_tips (summary_prompt flights_info itinerary budget_plan local_tips) \<and>
           sublist (summary_prompt flights_info itinerary budget_plan local_tips)
             (full_prompt (summarizer ags) sid ts
                (summary_prompt flights_info itinerary budget_plan local_tips)) \<and>
           filter shows_plan (since s (snd (pipeline w f ags s))) =
             [St_markdown (success_box summarized_plan)] \<and>
           success_box summarized_plan = ''<div class=\"success-box\">'' @ summarized_plan @ ''</div>''"
proof -
  from pipeline_returns[OF assms] obtain sid1 ts1 x1 sid2 ts2 x2 sid3 ts3 x3 sid4 ts4 x4 sid5 ts5 x5
    where m: "marks (since s (snd (pipeline w f ags s))) =
             call_pair (researcher ags) sid1 ts1 (research_query f) x1 @
             call_pair (planner ags) sid2 ts2 (itinerary_query f) x2 @
             call_pair (budget_expert ags) sid3 ts3 (budget_query f) x3 @
             call_pair (local_expert ags) sid4 ts4 (local_query f) x4 @
             call_pair (summarizer ags) sid5 ts5 (summary_prompt x1 x2 x3 x4) x5"
      and fin: "filter is_final (since s (snd (pipeline w f ags s))) = final_events f x5"
    by blast
  have "filter shows_plan (since s (snd (pipeline w f ags s))) = filter shows_plan (final_events f x5)"
    using fin filter_shows_plan by metis
  then have sp: "filter shows_plan (since s (snd (pipeline w f ags s))) = [St_markdown (success_box x5)]"
    by (simp add: final_events_def prefix_success_box)
  have box: "success_box x5 = ''<div class=\"success-box\">'' @ x5 @ ''</div>''"
    by (simp add: success_box_def)
  have ms: "marks (since s (snd (pipeline w f ags s))) =
             [Started (name (researcher ags)) (full_prompt (researcher ags) sid1 ts1 (research_query f)),
              Finished (name (researcher ags)) x1,
              Started (name (planner ags)) (full_prompt (planner ags) sid2 ts2 (itinerary_query f)),
              Finished (name (planner ags)) x2,
              Started (name (budget_expert ags)) (full_prompt (budget_expert ags) sid3 ts3 (budget_query f)),
              Finished (name (budget_expert ags)) x3,
              Started (name (local_expert ags)) (full_prompt (local_expert ags) sid4 ts4 (local_query f)),
              Finished (name (local_expert ags)) x4,
              Started (name (summarizer ags))
                (full_prompt (summarizer ags) sid5 ts5 (summary_prompt x1 x2 x3 x4)),
              Finished (name (summarizer ags)) x5]"
    using m by (simp add: call_pair_def)
  note facts = conjI[OF ms conjI[OF sublist_summary_prompt(1)[of x1 x2 x3 x4]
      conjI[OF sublist_summary_prompt(2)[of x2 x1 x3 x4] conjI[OF sublist_summary_prompt(3)[of x3 x1 x2 x4]
      conjI[OF sublist_summary_prompt(4)[of x4 x1 x2 x3]
      conjI[OF sublist_full_prompt[of "summary_prompt x1 x2 x3 x4" "summarizer ags" sid5 ts5]
      conjI[OF sp box]]]]]]]
  show ?thesis
    by (rule exI)+ (rule facts)
qed

theorem final_plan_from_one_summary_witness:
  "fst (pipeline world_ok example_form example_agents init_state) = Inr () \<and>
   (\<exists>p1 p2 p3 p4 sid ts flights_info itinerary budget_plan local_tips summarized_plan.
           marks (since init_state (snd (pipeline world_ok example_form example_agents init_state))) =
             [Started (name (researcher example_agents)) p1,
              Finished (name (researcher example_agents)) flights_info,
              Started (name (planner example_agents)) p2, Finished (name (planner example_agents)) itinerary,
              Started (name (budget_expert example_agents)) p3,
              Finished (name (budget_expert example_agents)) budget_plan,
              Started (name (local_expert example_agents)) p4,
              Finished (name (local_expert example_agents)) local_tips,
              Started (name (summarizer example_agents))
                (full_prompt (summarizer example_agents) sid ts
                   (summary_prompt flights_info itinerary budget_plan local_tips)),
              Finished (name (summarizer example_agents)) summarized_plan] \<and>
           sublist flights_info (summary_prompt flights_info itinerary budget_plan local_tips) \<and>
           sublist itinerary (summary_prompt flights_info itinerary budget_plan local_tips) \<and>
           sublist budget_plan (summary_prompt flights_info itinerary budget_plan local_tips) \<and>
           sublist local_tips (summary_prompt flights_info itinerary budget_plan local_tips) \<and>
           sublist (summary_prompt flights_info itinerary budget_plan local_tips)
             (full_prompt (summarizer example_agents) sid ts
                (summary_prompt flights_info itinerary budget_plan local_tips)) \<and>
           filter shows_plan (since init_state (snd (pipeline world_ok example_form example_agents init_state))) =
             [St_markdown (success_box summarized_plan)] \<and>
           success_box summarized_plan = ''<div class=\"success-box\">'' @ summarized_plan @ ''</div>'')"
proof -
  have h: "fst (pipeline world_ok example_form example_agents init_state) = Inr ()"
    by (simp add: eval_defs world_ok_def example_agents_def searcher_def)
  show ?thesis
    using h final_plan_from_one_summary[OF h] by (rule conjI)
qed

subsection \<open>C4: the search agents and the tools\<close>






subsection \<open>C5: an exception in the pipeline\<close>

lemma generate_raises:
  assumes "fst (pipeline w f ags (emits [St_progress 0, St_empty, St_container] s)) = Inl e"
  shows "since s (generate w f ags s) =
           [St_progress 0, St_empty, St_container] @
           since (emits [St_progress 0, St_empty, St_container] s)
             (snd (pipeline w f ags (emits [St_progress 0, St_empty, St_container] s))) @
           [St_markdown (error_box e),
            St_info ([CHR 0xF0, CHR 0x9F, CHR 0x92, CHR 0xA1] @
              '' Please check that all API keys are correctly configured in your Streamlit secrets.'')]"
proof -
  let ?s0 = "emits [St_progress 0, St_empty, St_container] s"
  obtain s1 where p: "pipeline w f ags ?s0 = (Inl e, s1)"
    using assms by (cases "pipeline w f ags ?s0") auto
  have t: "trace s1 = trace ?s0 @ since ?s0 s1"
    using pipeline_extends[of w f ags ?s0] p by simp
  have "trace (generate w f ags s) =
          trace s @ [St_progress 0, St_empty, St_container] @ since ?s0 s1 @
           [St_markdown (error_box e),
            St_info ([CHR 0xF0, CHR 0x9F, CHR 0x92, CHR 0xA1] @
              '' Please check that all API keys are correctly configured in your Streamlit secrets.'')]"
    unfolding generate_def p by (simp add: st_simps t)
  then show ?thesis
    using p by (simp add: since_append)
qed

text \<open>
  C5. When the body of the \<^verbatim>\<open>try\<close> statement raises \<open>e\<close>, what the click produced ends
  with the event at which \<open>e\<close> was raised, then the error box, whose text holds \<open>e\<close>, then
  the hint about the API keys: nothing is called after the exception. No final plan is
  shown and no download is offered; the model calls made are an initial segment of the
  fixed order, one call per agent, so that no step was run twice.
\<close>

theorem exception_is_shown_and_ends_the_run:
  assumes "fst (pipeline w f ags (emits [St_progress 0, St_empty, St_container] s)) = Inl e"
  shows "\<exists>before ev.
           since s (generate w f ags s) =
             before @
             [ev, St_markdown (error_box e),
              St_info ([CHR 0xF0, CHR 0x9F, CHR 0x92, CHR 0xA1] @
                '' Please check that all API keys are correctly configured in your Streamlit secrets.'')] \<and>
           raising e ev \<and>
           error_box e =
             ''<div class=\"error-box\">'' @ [CHR 0xE2, CHR 0x9D, CHR 0x8C] @
             '' Error generating travel plan: '' @ e @ ''</div>'' \<and>
           sublist e (error_box e) \<and>
           filter is_final (since s (generate w f ags s)) = [] \<and>
           in_order [name (researcher ags), name (planner ags), name (budget_expert ags),
                     name (local_expert ags), name (summarizer ags)]
             (marks (since s (generate w f ags s)))"
proof -
  let ?s0 = "emits [St_progress 0, St_empty, St_container] s"
  let ?new = "since ?s0 (snd (pipeline w f ags ?s0))"
  let ?tail = "[St_markdown (error_box e),
              St_info ([CHR 0xF0, CHR 0x9F, CHR 0x92, CHR 0xA1] @
                '' Please check that all API keys are correctly configured in your Streamlit secrets.'')]"
  note g = generate_raises[OF assms]
  from pipeline_raises[OF assms]
  have nf: "filter is_final ?new = []" and ne: "?new \<noteq> []" and ra: "raising e (last ?new)"
    by simp_all
  have split: "?new = butlast ?new @ [last ?new]"
    using ne by simp
  have 1: "since s (generate w f ags s) =
             ([St_progress 0, St_empty, St_container] @ butlast ?new) @ (last ?new # ?tail)"
    unfolding g using split by (metis append.assoc append_Cons append_Nil)
  have 2: "error_box e =
             ''<div class=\"error-box\">'' @ [CHR 0xE2, CHR 0x9D, CHR 0x8C] @
             '' Error generating travel plan: '' @ e @ ''</div>''"
    by (simp add: error_box_def)
  have 3: "sublist e (error_box e)"
    unfolding error_box_def by (rule sublist_appendI | rule sublist_skip)+
  have 4: "filter is_final (since s (generate w f ags s)) = []"
    unfolding g using nf by (simp add: is_final_def prefix_error_box)
  have 5: "in_order [name (researcher ags), name (planner ags), name (budget_expert ags),
                     name (local_expert ags), name (summarizer ags)]
             (marks (since s (generate w f ags s)))"
    unfolding g using pipeline_order[of ags ?s0 w f] by (simp add: marks_append marks_Cons marks_Nil)
  show ?thesis
    by (rule exI)+ (rule conjI[OF 1 conjI[OF ra conjI[OF 2 conjI[OF 3 conjI[OF 4 5]]]]])
qed

theorem exception_is_shown_and_ends_the_run_witness:
  "fst (pipeline world_failing example_form example_agents
          (emits [St_progress 0, St_empty, St_container] init_state)) = Inl ''quota exceeded'' \<and>
   (\<exists>before ev.
           since init_state (generate world_failing example_form example_agents init_state) =
             before @
             [ev, St_markdown (error_box ''quota exceeded''),
              St_info ([CHR 0xF0, CHR 0x9F, CHR 0x92, CHR 0xA1] @
                '' Please check that all API keys are correctly configured in your Streamlit secrets.'')] \<and>
           raising ''quota exceeded'' ev \<and>
           error_box ''quota exceeded'' =
             ''<div class=\"error-box\">'' @ [CHR 0xE2, CHR 0x9D, CHR 0x8C] @
             '' Error generating travel plan: '' @ ''quota exceeded'' @ ''</div>'' \<and>
           sublist ''quota exceeded'' (error_box ''quota exceeded'') \<and>
           filter is_final (since init_state (generate world_failing example_form example_agents init_state)) = [] \<and>
           in_order [name (researcher example_agents), name (planner example_agents),
                     name (budget_expert example_agents), name (local_expert example_agents),
                     name (summarizer example_agents)]
             (marks (since init_state (generate world_failing example_form example_agents init_state))))"
proof -
  have h: "fst (pipeline world_failing example_form example_agents
          (emits [St_progress 0, St_empty, St_container] init_state)) = Inl ''quota exceeded''"
    by (simp add: eval_defs world_failing_def world_ok_def example_agents_def searcher_def)
  show ?thesis
    by (rule conjI[OF h exception_is_shown_and_ends_the_run[OF h]])
qed

subsection \<open>C6: the trip parameters in the prompts\<close>

text \<open>
  C6. The research query holds the origin, the destination and both dates; the itinerary
  query the destination, both dates and the interests; the budget query the budget, the
  destination and both dates; the local-insights query the destination, both dates and
  the interests: each as a contiguous substring, a date in the form \<^verbatim>\<open>str\<close> gives it.
  In a run of the pipeline that completes, the prompts of the first four model calls
  hold these four queries.
\<close>

theorem queries_hold_trip_parameters:
  "sublist (origin f) (research_query f) \<and> sublist (destination f) (research_query f) \<and>
   sublist (isoformat (start_date f)) (research_query f) \<and>
   sublist (isoformat (end_date f)) (research_query f) \<and>
   sublist (destination f) (itinerary_query f) \<and>
   sublist (isoformat (start_date f)) (itinerary_query f) \<and>
   sublist (isoformat (end_date f)) (itinerary_query f) \<and>
   sublist (interests f) (itinerary_query f) \<and>
   sublist (budget f) (budget_query f) \<and> sublist (destination f) (budget_query f) \<and>
   sublist (isoformat (start_date f)) (budget_query f) \<and>
   sublist (isoformat (end_date f)) (budget_query f) \<and>
   sublist (destination f) (local_query f) \<and>
   sublist (isoformat (start_date f)) (local_query f) \<and>
   sublist (isoformat (end_date f)) (local_query f) \<and>
   sublist (interests f) (local_query f) \<and>
   (fst (pipeline w f ags s) = Inr u \<longrightarrow>
      (\<exists>p1 x1 p2 x2 p3 x3 p4 x4 p5 x5.
         marks (since s (snd (pipeline w f ags s))) =
           [Started (name (researcher ags)) p1, Finished (name (researcher ags)) x1,
            Started (name (planner ags)) p2, Finished (name (planner ags)) x2,
            Started (name (budget_expert ags)) p3, Finished (name (budget_expert ags)) x3,
            Started (name (local_expert ags)) p4, Finished (name (local_expert ags)) x4,
            Started (name (summarizer ags)) p5, Finished (name (summarizer ags)) x5] \<and>
         sublist (research_query f) p1 \<and> sublist (itinerary_query f) p2 \<and>
         sublist (budget_query f) p3 \<and> sublist (local_query f) p4))"
proof -
  have tie: "\<exists>p1 x1 p2 x2 p3 x3 p4 x4 p5 x5.
         marks (since s (snd (pipeline w f ags s))) =
           [Started (name (researcher ags)) p1, Finished (name (researcher ags)) x1,
            Started (name (planner ags)) p2, Finished (name (planner ags)) x2,
            Started (name (budget_expert ags)) p3, Finished (name (budget_expert ags)) x3,
            Started (name (local_expert ags)) p4, Finished (name (local_expert ags)) x4,
            Started (name (summarizer ags)) p5, Finished (name (summarizer ags)) x5] \<and>
         sublist (research_query f) p1 \<and> sublist (itinerary_query f) p2 \<and>
         sublist (budget_query f) p3 \<and> sublist (local_query f) p4"
    if "fst (pipeline w f ags s) = Inr u"
  proof -
    from pipeline_returns[OF that] obtain sid1 ts1 x1 sid2 ts2 x2 sid3 ts3 x3 sid4 ts4 x4 sid5 ts5 x5
      where "marks (since s (snd (pipeline w f ags s))) =
             call_pair (researcher ags) sid1 ts1 (research_query f) x1 @
             call_pair (planner ags) sid2 ts2 (itinerary_query f) x2 @
             call_pair (budget_expert ags) sid3 ts3 (budget_query f) x3 @
             call_pair (local_expert ags) sid4 ts4 (local_query f) x4 @
             call_pair (summarizer ags) sid5 ts5 (summary_prompt x1 x2 x3 x4) x5"
      by blast
    then show ?thesis
      using sublist_full_prompt by (simp add: call_pair_def)
  qed
  show ?thesis
    using tie sublist_research_query sublist_itinerary_query sublist_budget_query sublist_local_query
    by blast
qed

theorem queries_hold_trip_parameters_witness:
  "fst (pipeline world_ok example_form example_agents init_state) = Inr () \<and>
   sublist ''Pune'' (research_query example_form) \<and>
   sublist ''New York'' (research_query example_form) \<and>
   sublist ''2025-06-01'' (research_query example_form) \<and>
   sublist ''2025-06-10'' (research_query example_form) \<and>
   sublist ''$2000'' (budget_query example_form) \<and>
   sublist ''food'' (local_query example_form) \<and>
   (\<exists>p1 x1 p2 x2 p3 x3 p4 x4 p5 x5.
      marks (since init_state (snd (pipeline world_ok example_form example_agents init_state))) =
        [Started ''Researcher'' p1, Finished ''Researcher'' x1,
         Started ''Planner'' p2, Finished ''Planner'' x2,
         Started ''Budget Expert'' p3, Finished ''Budget Expert'' x3,
         Started ''Local Expert'' p4, Finished ''Local Expert'' x4,
         Started ''Summarizer'' p5, Finished ''Summarizer'' x5] \<and>
      sublist (research_query example_form) p1 \<and> sublist (itinerary_query example_form) p2 \<and>
      sublist (budget_query example_form) p3 \<and> sublist (local_query example_form) p4)"
proof -
  have h: "fst (pipeline world_ok example_form example_agents init_state) = Inr ()"
    by (rule example_run_returns)
  have d1: "isoformat \<lparr>year = 2025, month = 6, day = 1\<rparr> = ''2025-06-01''"
    by code_simp
  have d2: "isoformat \<lparr>year = 2025, month = 6, day = 10\<rparr> = ''2025-06-10''"
    by code_simp
  note t = queries_hold_trip_parameters[of example_form world_ok example_agents init_state "()"]
  have names: "name (researcher example_agents) = ''Researcher''" "name (planner example_agents) = ''Planner''"
    "name (budget_expert example_agents) = ''Budget Expert''" "name (local_expert example_agents) = ''Local Expert''"
    "name (summarizer example_agents) = ''Summarizer''"
    by (simp_all add: example_agents_def searcher_def)
  have vals: "origin example_form = ''Pune''" "destination example_form = ''New York''"
    "budget example_form = ''$2000''" "interests example_form = ''food''"
    "start_date example_form = \<lparr>year = 2025, month = 6, day = 1\<rparr>"
    "end_date example_form = \<lparr>year = 2025, month = 6, day = 10\<rparr>"
    by (simp_all add: example_form_def)
  show ?thesis
    using t h unfolding names vals d1 d2 by blast
qed

subsection \<open>C7: the download\<close>

text \<open>
  C7. In a run of the pipeline that completes, exactly one download is offered: its data
  is the text the summarizer returned (the last model call of the run), its MIME type is
  \<^verbatim>\<open>text/plain\<close>, and its file name is \<^verbatim>\<open>travel_plan_\<close>, the destination with every space
  replaced by an underscore, an underscore, the start date as \<^verbatim>\<open>str\<close> gives it, and
  \<^verbatim>\<open>.txt\<close>.
\<close>

theorem download_is_the_final_plan:
  assumes "fst (pipeline w f ags s) = Inr u"
  shows "\<exists>summarized_plan.
           last (marks (since s (snd (pipeline w f ags s)))) =
             Finished (name (summarizer ags)) summarized_plan \<and>
           filter is_download (since s (snd (pipeline w f ags s))) =
             [St_download_button ([CHR 0xF0, CHR 0x9F, CHR 0x93, CHR 0xA5] @ '' Download Travel Plan'')
                summarized_plan
                (''travel_plan_'' @ str_replace (CHR '' '') (CHR ''_'') (destination f) @ ''_'' @
                   isoformat (start_date f) @ ''.txt'')
                ''text/plain''] \<and>
           CHR '' '' \<notin> set (str_replace (CHR '' '') (CHR ''_'') (destination f)) \<and>
           length (str_replace (CHR '' '') (CHR ''_'') (destination f)) = length (destination f)"
proof -
  from pipeline_returns[OF assms] obtain sid1 ts1 x1 sid2 ts2 x2 sid3 ts3 x3 sid4 ts4 x4 sid5 ts5 x5
    where m: "marks (since s (snd (pipeline w f ags s))) =
             call_pair (researcher ags) sid1 ts1 (research_query f) x1 @
             call_pair (planner ags) sid2 ts2 (itinerary_query f) x2 @
             call_pair (budget_expert ags) sid3 ts3 (budget_query f) x3 @
             call_pair (local_expert ags) sid4 ts4 (local_query f) x4 @
             call_pair (summarizer ags) sid5 ts5 (summary_prompt x1 x2 x3 x4) x5"
      and fin: "filter is_final (since s (snd (pipeline w f ags s))) = final_events f x5"
    by blast
  have l: "last (marks (since s (snd (pipeline w f ags s)))) = Finished (name (summarizer ags)) x5"
    unfolding m by (simp add: call_pair_def)
  have "filter is_download (since s (snd (pipeline w f ags s))) = filter is_download (final_events f x5)"
    using fin filter_is_download by metis
  then have d: "filter is_download (since s (snd (pipeline w f ags s))) =
             [St_download_button ([CHR 0xF0, CHR 0x9F, CHR 0x93, CHR 0xA5] @ '' Download Travel Plan'')
                x5
                (''travel_plan_'' @ str_replace (CHR '' '') (CHR ''_'') (destination f) @ ''_'' @
                   isoformat (start_date f) @ ''.txt'')
                ''text/plain'']"
    by (simp add: final_events_def file_name_def prefix_success_box)
  have r: "CHR '' '' \<notin> set (str_replace (CHR '' '') (CHR ''_'') (destination f))"
    by (auto simp: str_replace_def)
  have n: "length (str_replace (CHR '' '') (CHR ''_'') (destination f)) = length (destination f)"
    by (simp add: str_replace_def)
  show ?thesis
    by (rule exI) (rule conjI[OF l conjI[OF d conjI[OF r n]]])
qed

theorem download_is_the_final_plan_witness:
  "fst (pipeline world_ok example_form example_agents init_state) = Inr () \<and>
   file_name example_form = ''travel_plan_New_York_2025-06-01.txt'' \<and>
   (\<exists>summarized_plan.
           last (marks (since init_state (snd (pipeline world_ok example_form example_agents init_state)))) =
             Finished (name (summarizer example_agents)) summarized_plan \<and>
           filter is_download (since init_state (snd (pipeline world_ok example_form example_agents init_state))) =
             [St_download_button ([CHR 0xF0, CHR 0x9F, CHR 0x93, CHR 0xA5] @ '' Download Travel Plan'')
                summarized_plan
                (''travel_plan_'' @ str_replace (CHR '' '') (CHR ''_'') (destination example_form) @ ''_'' @
                   isoformat (start_date example_form) @ ''.txt'')
                ''text/plain''] \<and>
           CHR '' '' \<notin> set (str_replace (CHR '' '') (CHR ''_'') (destination example_form)) \<and>
           length (str_replace (CHR '' '') (CHR ''_'') (destination example_form)) =
             length (destination example_form))"
proof -
  have h: "fst (pipeline world_ok example_form example_agents init_state) = Inr ()"
    by (simp add: eval_defs world_ok_def example_agents_def searcher_def)
  have n: "file_name example_form = ''travel_plan_New_York_2025-06-01.txt''"
    by code_simp
  show ?thesis
    by (rule conjI[OF h conjI[OF n download_is_the_final_plan[OF h]]])
qed

subsection \<open>C8: validation\<close>

text \<open>
  C8. When the start date is on or after the end date, or the button was clicked with
  one of the four text fields empty (a date is never empty), the run makes no model call
  and shows no plan; and when the form was shown at all, the run ends with the error
  message of the check that failed, the one about the dates first.
\<close>

theorem no_agent_runs_on_invalid_form:
  assumes "date_ge (start_date f) (end_date f) \<or>
           (button f \<and> (origin f = [] \<or> destination f = [] \<or> budget f = [] \<or> interests f = []))"
  shows "marks (since s (main w f s)) = [] \<and>
         filter is_final (since s (main w f s)) = [] \<and>
         (filter is_input (since s (main w f s)) \<noteq> [] \<longrightarrow>
            last (trace (main w f s)) =
              St_error
                (if date_ge (start_date f) (end_date f)
                 then [CHR 0xE2, CHR 0x9D, CHR 0x8C] @ '' End date must be after start date!''
                 else [CHR 0xE2, CHR 0x9D, CHR 0x8C] @ '' Please fill in all fields!''))"
proof (cases rule: main_cases[of s w f])
  case closed
  from main_closed[OF closed] show ?thesis by simp
next
  case (form ags s4)
  have inv: "date_ge (start_date f) (end_date f) \<or> (button f \<and> \<not> all_filled f)"
    using assms by (auto simp: all_filled_def)
  from trip_form_invalid[OF inv, of w ags s4] obtain new where
    new: "trace (trip_form w f ags s4) = trace s4 @ new" "marks new = []" "filter is_final new = []"
    by blast
  from main_trip_form[OF form new(1)] new(2,3) trip_form_invalid_last[OF inv, of w ags s4] form(2)
  show ?thesis by simp
qed

theorem no_agent_runs_on_invalid_form_witness:
  "(button (example_form\<lparr>origin := []\<rparr>) \<and> origin (example_form\<lparr>origin := []\<rparr>) = []) \<and>
   marks (since init_state (main world_ok (example_form\<lparr>origin := []\<rparr>) init_state)) = [] \<and>
   last (trace (main world_ok (example_form\<lparr>origin := []\<rparr>) init_state)) =
     St_error ([CHR 0xE2, CHR 0x9D, CHR 0x8C] @ '' Please fill in all fields!'') \<and>
   date_ge (start_date (example_form\<lparr>end_date := start_date example_form\<rparr>))
     (end_date (example_form\<lparr>end_date := start_date example_form\<rparr>)) \<and>
   marks (since init_state
            (main world_ok (example_form\<lparr>end_date := start_date example_form\<rparr>) init_state)) = [] \<and>
   last (trace (main world_ok (example_form\<lparr>end_date := start_date example_form\<rparr>) init_state)) =
     St_error ([CHR 0xE2, CHR 0x9D, CHR 0x8C] @ '' End date must be after start date!'')"
proof -
  let ?f1 = "example_form\<lparr>origin := []\<rparr>"
  let ?f2 = "example_form\<lparr>end_date := start_date example_form\<rparr>"
  have h1: "button ?f1 \<and> origin ?f1 = []"
    by (simp add: example_form_def)
  have d1: "\<not> date_ge (start_date ?f1) (end_date ?f1)"
    by (simp add: example_form_def date_ge_def date_lt_def)
  have i1: "filter is_input (since init_state (main world_ok ?f1 init_state)) \<noteq> []"
    by (simp add: eval_defs world_ok_def since_def trip_details_def)
  have h2: "date_ge (start_date ?f2) (end_date ?f2)"
    by (simp add: example_form_def date_ge_def date_lt_def)
  have i2: "filter is_input (since init_state (main world_ok ?f2 init_state)) \<noteq> []"
    by (simp add: eval_defs world_ok_def since_def trip_details_def)
  from no_agent_runs_on_invalid_form[of ?f1 init_state world_ok] h1 d1 i1
  have a: "marks (since init_state (main world_ok ?f1 init_state)) = []"
    and b: "last (trace (main world_ok ?f1 init_state)) =
              St_error ([CHR 0xE2, CHR 0x9D, CHR 0x8C] @ '' Please fill in all fields!'')"
    by simp_all
  from no_agent_runs_on_invalid_form[of ?f2 init_state world_ok] h2 i2
  have c: "marks (since init_state (main world_ok ?f2 init_state)) = []"
    and d: "last (trace (main world_ok ?f2 init_state)) =
              St_error ([CHR 0xE2, CHR 0x9D, CHR 0x8C] @ '' End date must be after start date!'')"
    by simp_all
  show ?thesis
    by (rule conjI[OF h1 conjI[OF a conjI[OF b conjI[OF h2 conjI[OF c d]]]]])
qed

subsection \<open>C9: the full prompt\<close>




subsection \<open>C10: an agent without tools\<close>

lemma TravelAgent_init_no_tools:
  "\<exists>a. TravelAgent_init w nm rl gl bs lm [] ua s = (Inr a, s) \<and> agent a = None \<and> tools a = [] \<and>
       use_agent a = ua \<and> \<not> tool_using a"
  by (simp add: TravelAgent_init_def tool_using_def)

lemma run_direct_fst:
  assumes "\<not> tool_using a"
  shows "\<exists>p. (\<exists>x. fst (run w a q s) = Inr x \<and>
                 since s (snd (snd (run w a q s))) = [Llm_invoke (name a) (llm a) p, Returned (name a) x] \<and>
                 (llm_invoke w (Suc (Suc (tick s))) (llm a) p = Inr (With_content x) \<or>
                  llm_invoke w (Suc (Suc (tick s))) (llm a) p = Inr (Without_content x))) \<or>
             (\<exists>e. fst (run w a q s) = Inl e \<and>
                 since s (snd (snd (run w a q s))) = [Llm_invoke (name a) (llm a) p, Raised (name a) e] \<and>
                 llm_invoke w (Suc (Suc (tick s))) (llm a) p = Inl e)"
proof -
  obtain r a' s' where r: "run w a q s = (r, a', s')"
    by (metis prod_cases3)
  from run_direct[OF assms r] show ?thesis
    unfolding r by simp
qed

lemma initialize_agents_no_tools:
  assumes "fst (initialize_agents w s) = Some ags" and "fst (initialize_composio_tools w (advance s)) = []"
  shows "\<not> tool_using (researcher ags) \<and> \<not> tool_using (planner ags) \<and>
         \<not> tool_using (budget_expert ags) \<and> \<not> tool_using (local_expert ags) \<and>
         \<not> tool_using (summarizer ags)"
proof -
  obtain s' where "initialize_agents w s = (Some ags, s')"
    using assms(1) by (cases "initialize_agents w s") auto
  from initialize_agents_Some[OF this] assms(2) show ?thesis
    by (simp add: tool_using_def)
qed

text \<open>
  C10. Whatever its \<^verbatim>\<open>use_agent\<close> flag, an agent constructed with an empty tool list is
  built without an executor and without a call to \<^verbatim>\<open>initialize_agent\<close>. Such an agent
  never initialises or runs an executor, however often it is invoked, and stays as it
  is; each \<^verbatim>\<open>run\<close> is one call of \<^verbatim>\<open>llm.invoke\<close> and returns the text of its response
  (its content, or its \<^verbatim>\<open>str\<close> when it has none), or raises what the call raised. When
  the Composio initialisation yields no tools, none of the agents uses an executor.
\<close>

theorem agent_without_tools_calls_the_model_directly:
  "(\<exists>a. TravelAgent_init w nm rl gl bs lm [] ua s = (Inr a, s) \<and> agent a = None \<and> tools a = [] \<and>
        use_agent a = ua \<and> \<not> tool_using a) \<and>
   (\<not> tool_using self \<longrightarrow>
      fst (run_all w self qs t) = self \<and>
      filter uses_tools (since t (snd (run_all w self qs t))) = [] \<and>
      (\<exists>p. (\<exists>x. fst (run w self q t) = Inr x \<and>
               since t (snd (snd (run w self q t))) =
                 [Llm_invoke (name self) (llm self) p, Returned (name self) x] \<and>
               (llm_invoke w (Suc (Suc (tick t))) (llm self) p = Inr (With_content x) \<or>
                llm_invoke w (Suc (Suc (tick t))) (llm self) p = Inr (Without_content x))) \<or>
           (\<exists>e. fst (run w self q t) = Inl e \<and>
               since t (snd (snd (run w self q t))) =
                 [Llm_invoke (name self) (llm self) p, Raised (name self) e] \<and>
               llm_invoke w (Suc (Suc (tick t))) (llm self) p = Inl e))) \<and>
   (fst (initialize_agents w s0) = Some ags \<and> fst (initialize_composio_tools w (advance s0)) = [] \<longrightarrow>
      \<not> tool_using (researcher ags) \<and> \<not> tool_using (planner ags) \<and>
      \<not> tool_using (budget_expert ags) \<and> \<not> tool_using (local_expert ags))"
  using TravelAgent_init_no_tools[of w nm rl gl bs lm ua s] run_all_direct[of self w qs t]
    run_direct_fst[of self w q t] initialize_agents_no_tools[of w s0 ags]
  by blast

theorem agent_without_tools_calls_the_model_directly_witness:
  "\<not> tool_using (summarizer example_agents) \<and>
   fst (run_all world_no_tools (summarizer example_agents) [''first'', ''second''] init_state) =
     summarizer example_agents \<and>
   filter uses_tools
     (since init_state (snd (run_all world_no_tools (summarizer example_agents) [''first'', ''second''] init_state))) = [] \<and>
   fst (run world_no_tools (summarizer example_agents) ''first'' init_state) = Inr ''plan'' \<and>
   fst (initialize_composio_tools world_no_tools (advance init_state)) = [] \<and>
   (\<exists>ags. fst (initialize_agents world_no_tools init_state) = Some ags \<and>
      \<not> tool_using (researcher ags) \<and> \<not> tool_using (planner ags) \<and>
      \<not> tool_using (budget_expert ags) \<and> \<not> tool_using (local_expert ags))"
proof -
  have h1: "\<not> tool_using (summarizer example_agents)"
    by (simp add: tool_using_def example_agents_def)
  have h2: "fst (initialize_composio_tools world_no_tools (advance init_state)) = []"
    by (simp add: eval_defs world_no_tools_def world_ok_def)
  have "\<exists>ags. fst (initialize_agents world_no_tools init_state) = Some ags"
    by (simp add: eval_defs world_no_tools_def world_ok_def)
  then obtain ags where h3: "fst (initialize_agents world_no_tools init_state) = Some ags"
    by blast
  have r: "fst (run world_no_tools (summarizer example_agents) ''first'' init_state) = Inr ''plan''"
    by (simp add: eval_defs world_no_tools_def world_ok_def example_agents_def)
  note t = agent_without_tools_calls_the_model_directly[of world_no_tools "''Summarizer''" "''r''" "''g''"
      "''b''" gemini False init_state "summarizer example_agents" "[''first'', ''second'']" init_state
      "''first''" init_state ags]
  from t h1 have a: "fst (run_all world_no_tools (summarizer example_agents) [''first'', ''second''] init_state) =
     summarizer example_agents"
    and b: "filter uses_tools
     (since init_state (snd (run_all world_no_tools (summarizer example_agents) [''first'', ''second''] init_state))) = []"
    by blast+
  from t h2 h3 have c: "\<not> tool_using (researcher ags) \<and> \<not> tool_using (planner ags) \<and>
      \<not> tool_using (budget_expert ags) \<and> \<not> tool_using (local_expert ags)"
    by blast
  from h3 c have d: "\<exists>ags. fst (initialize_agents world_no_tools init_state) = Some ags \<and>
      \<not> tool_using (researcher ags) \<and> \<not> tool_using (planner ags) \<and>
      \<not> tool_using (budget_expert ags) \<and> \<not> tool_using (local_expert ags)"
    by blast
  show ?thesis
    by (rule conjI[OF h1 conjI[OF a conjI[OF b conjI[OF r conjI[OF h2 d]]]]])
qed

end
